theory Spec2Isabelle
  imports Complex_Main
begin

section \<open>Data model of the racing game (src/main.py)\<close>

text \<open>
  Coordinates are Python floats; they are modelled as real numbers, so rounding is not
  part of this model. Integers (score, level, coin counters, seeds) are unbounded Python
  ints. The rendering engine (Ursina) is outside the repository: what the game reads from
  it (frame time, the forward vector of a car, the collision tests, the stream of values
  of the pseudo random generator) is collected in the record \<open>engine\<close> and is a
  parameter of every operation. User interface widgets (dashboard texts, minimap, menus)
  carry no world state and are left out.
\<close>

type_synonym vec3 = "real \<times> real \<times> real"

definition vx :: "vec3 \<Rightarrow> real" where
  "vx p = fst p"

definition vy :: "vec3 \<Rightarrow> real" where
  "vy p = fst (snd p)"

definition vz :: "vec3 \<Rightarrow> real" where
  "vz p = snd (snd p)"

text \<open>\<open>entity.z = v\<close> and \<open>entity.z -= d\<close> of the engine: only the third coordinate changes.\<close>

definition set_z :: "real \<Rightarrow> vec3 \<Rightarrow> vec3" where
  "set_z v p = (vx p, vy p, v)"


text \<open>The Python exceptions that the modelled code can raise.\<close>

datatype error = AttributeError | TypeError | KeyError | JSONDecodeError

text \<open>A texture handle: the engine object built from the file name, which holds the kind
  of texture and the seed.\<close>

datatype texture = Texture string int

text \<open>Walls, obstacles and coins are engine entities; \<open>destroy\<close> disables an entity.\<close>

record entity =
  e_position :: vec3
  enabled :: bool

definition destroy :: "entity \<Rightarrow> entity" where
  "destroy e = e\<lparr>enabled := False\<rparr>"

definition new_entity :: "vec3 \<Rightarrow> entity" where
  "new_entity p = \<lparr>e_position = p, enabled = True\<rparr>"

text \<open>Class \<open>Car\<close>: the constructor sets speed 0, max\_speed 20, rotation\_speed 60.\<close>

record car =
  position :: vec3
  rotation :: vec3
  speed :: real
  max_speed :: real
  rotation_speed :: real
  is_player :: bool

definition Car :: "vec3 \<Rightarrow> bool \<Rightarrow> car" where
  "Car p pl = \<lparr>position = p, rotation = (0, 0, 0), speed = 0, max_speed = 20,
     rotation_speed = 60, is_player = pl\<rparr>"

text \<open>The document that \<open>save_game\<close> writes with \<open>json.dump\<close>.\<close>

record player_data =
  pd_position :: vec3
  pd_rotation :: vec3
  pd_speed :: real
  pd_max_speed :: real
  pd_rotation_speed :: real

record ai_data =
  ad_position :: vec3
  ad_rotation :: vec3
  ad_speed :: real
  ad_max_speed :: real

record progress_data =
  gs_score :: int
  gs_level :: int
  gs_coins :: int
  gs_total_coins :: int
  gs_difficulty :: string

record save_data =
  sd_world_seed :: int
  sd_min_generated_z :: real
  sd_max_generated_z :: real
  sd_player :: player_data
  sd_coins :: "vec3 list"
  sd_ai_cars :: "ai_data list"
  sd_game_state :: progress_data

text \<open>The file \<open>savegame.json\<close>: absent, holding a document written by \<open>save_game\<close>, or
  holding text that \<open>json.load\<close> rejects.\<close>

datatype savefile_content = Unparseable | Saved save_data

datatype screen = Title | Playing | Paused

datatype line = Line string | ErrLine string error

text \<open>
  The attributes of \<open>CarRacingGame\<close>. An attribute that the source tests with \<open>hasattr\<close>
  or initialises to \<open>None\<close> is an option: \<open>None\<close> is the missing attribute. The global
  generator of module \<open>random\<close> is the pair of the last seed and the number of values drawn
  since; \<open>savefile\<close> is the file on disk and \<open>printed\<close> what was printed.
  \<open>world_seed\<close> and the two bounds are assigned before they are read on every path that
  creates a player, so they are plain fields; before that they hold a placeholder.
\<close>

record game =
  game_state :: screen
  difficulty :: string
  coins :: int
  level :: int
  total_coins :: int
  score :: int
  auto_save_timer :: "real option"
  textures :: "(string \<times> texture) list option"
  world_seed :: int
  ai_speed_factor :: "real option"
  min_generated_z :: real
  max_generated_z :: real
  walls :: "entity list option"
  obstacles :: "entity list option"
  coin_entities :: "entity list option"
  ai_cars :: "car list option"
  player :: "car option"
  rng :: "int \<times> nat"
  savefile :: "savefile_content option"
  printed :: "line list"

record engine =
  time_dt :: real
  forward :: "car \<Rightarrow> vec3"
  random_stream :: "int \<Rightarrow> nat \<Rightarrow> real"
  entity_intersects_car :: "entity \<Rightarrow> car \<Rightarrow> bool"
  car_intersects_entity :: "car \<Rightarrow> entity \<Rightarrow> bool"
  car_intersects_car :: "car \<Rightarrow> car \<Rightarrow> bool"

text \<open>A call either raises, leaving the state as mutated so far, or returns a state.\<close>

type_synonym outcome = "(error \<times> game) + game"

definition raised :: "outcome \<Rightarrow> error option" where
  "raised r = (case r of Inl (e, g) \<Rightarrow> Some e | Inr g \<Rightarrow> None)"

definition state_of :: "outcome \<Rightarrow> game" where
  "state_of r = (case r of Inl (e, g) \<Rightarrow> g | Inr g \<Rightarrow> g)"

definition print :: "line \<Rightarrow> game \<Rightarrow> game" where
  "print l g = g\<lparr>printed := printed g @ [l]\<rparr>"

section \<open>Random numbers and textures\<close>

text \<open>\<open>random.seed(s)\<close> restarts the stream of seed \<open>s\<close>; \<open>random.uniform(a, b)\<close> is
  \<open>a + (b - a) * random()\<close> and draws one value.\<close>

definition seed_random :: "int \<Rightarrow> game \<Rightarrow> game" where
  "seed_random s g = g\<lparr>rng := (s, 0)\<rparr>"

definition uniform :: "engine \<Rightarrow> real \<Rightarrow> real \<Rightarrow> game \<Rightarrow> real \<times> game" where
  "uniform E a b g =
     (a + (b - a) * random_stream E (fst (rng g)) (snd (rng g)),
      g\<lparr>rng := (fst (rng g), Suc (snd (rng g)))\<rparr>)"

text \<open>The texture generators are always called with a seed here; each reseeds the global
  generator and returns the handle of the image file. The pixels are not modelled.\<close>

definition generate_ground_texture :: "int \<Rightarrow> game \<Rightarrow> texture \<times> game" where
  "generate_ground_texture s g = (Texture ''ground'' s, seed_random s g)"

definition generate_wall_texture :: "int \<Rightarrow> game \<Rightarrow> texture \<times> game" where
  "generate_wall_texture s g = (Texture ''wall'' s, seed_random s g)"

definition generate_coin_texture :: "int \<Rightarrow> game \<Rightarrow> texture \<times> game" where
  "generate_coin_texture s g = (Texture ''coin'' s, seed_random s g)"

definition generate_car_texture :: "int \<Rightarrow> game \<Rightarrow> texture \<times> game" where
  "generate_car_texture s g = (Texture ''car'' s, seed_random s g)"

text \<open>\<open>self.textures[k]\<close>: TypeError on \<open>None\<close>, KeyError on a missing key.\<close>

definition lookup_texture :: "game \<Rightarrow> string \<Rightarrow> error + texture" where
  "lookup_texture g k =
     (case textures g of
        None \<Rightarrow> Inl TypeError
      | Some d \<Rightarrow> (case map_of d k of None \<Rightarrow> Inl KeyError | Some t \<Rightarrow> Inr t))"

section \<open>Track generation\<close>

text \<open>Python's \<open>int\<close> of a float truncates towards zero.\<close>

definition py_int :: "real \<Rightarrow> int" where
  "py_int x = (if 0 \<le> x then \<lfloor>x\<rfloor> else \<lceil>x\<rceil>)"

definition wall_near :: "real \<Rightarrow> entity \<Rightarrow> bool" where
  "wall_near z w = (\<bar>vz (e_position w) - z\<bar> < 1 / 10)"

text \<open>The \<open>while z <= end_z\<close> loop of \<open>generate_track_segment\<close> over the list
  \<open>self.walls\<close>. The texture is looked up only when a wall is placed; a failing lookup
  raises with the walls appended so far.\<close>

function walls_while :: "game \<Rightarrow> entity list \<Rightarrow> real \<Rightarrow> real \<Rightarrow> error option \<times> entity list" where
  "walls_while g ws z end_z =
     (if z \<le> end_z then
        (if \<not> list_ex (wall_near z) ws then
           (case lookup_texture g ''wall'' of
              Inl e \<Rightarrow> (Some e, ws)
            | Inr t \<Rightarrow>
                walls_while g (ws @ [new_entity (15, 1 / 2, z), new_entity (- 15, 1 / 2, z)])
                  (z + 2) end_z)
         else walls_while g ws (z + 2) end_z)
      else (None, ws))"
  by pat_completeness auto
termination
  by (relation "measure (\<lambda>(g, ws, z, end_z). nat (\<lfloor>end_z - z\<rfloor> + 3))") (auto, linarith+)

declare walls_while.simps [simp del]

text \<open>The \<open>try\<close> block: \<open>self.walls\<close> is read in the first iteration, so a missing
  attribute raises only when the loop body runs.\<close>

definition generate_walls :: "real \<Rightarrow> real \<Rightarrow> game \<Rightarrow> error option \<times> game" where
  "generate_walls start_z end_z g =
     (if start_z \<le> end_z then
        (case walls g of
           None \<Rightarrow> (Some AttributeError, g)
         | Some ws \<Rightarrow>
             (case walls_while g ws start_z end_z of
                (r, ws') \<Rightarrow> (r, g\<lparr>walls := Some ws'\<rparr>)))
      else (None, g))"

text \<open>\<open>for i in range(num_obstacles)\<close>: the two draws come first (x, then z), then the
  texture lookup, then the append to \<open>self.obstacles\<close>.\<close>

fun place_obstacles :: "engine \<Rightarrow> real \<Rightarrow> real \<Rightarrow> nat \<Rightarrow> game \<Rightarrow> outcome" where
  "place_obstacles E start_z end_z 0 g = Inr g"
| "place_obstacles E start_z end_z (Suc n) g =
     (case uniform E (- 12) 12 g of (x, ga) \<Rightarrow>
      case uniform E start_z end_z ga of (z, gb) \<Rightarrow>
      case lookup_texture gb ''wall'' of
        Inl e \<Rightarrow> Inl (e, gb)
      | Inr t \<Rightarrow>
         (case obstacles gb of
            None \<Rightarrow> Inl (AttributeError, gb)
          | Some os \<Rightarrow>
              place_obstacles E start_z end_z n
                (gb\<lparr>obstacles := Some (os @ [new_entity (x, 1, z)])\<rparr>)))"

text \<open>\<open>for i in range(num_coins)\<close>: as for obstacles, and each coin increments
  \<open>total_coins\<close>.\<close>

fun place_coins :: "engine \<Rightarrow> real \<Rightarrow> real \<Rightarrow> nat \<Rightarrow> game \<Rightarrow> outcome" where
  "place_coins E start_z end_z 0 g = Inr g"
| "place_coins E start_z end_z (Suc n) g =
     (case uniform E (- 12) 12 g of (x, ga) \<Rightarrow>
      case uniform E start_z end_z ga of (z, gb) \<Rightarrow>
      case lookup_texture gb ''coin'' of
        Inl e \<Rightarrow> Inl (e, gb)
      | Inr t \<Rightarrow>
         (case coin_entities gb of
            None \<Rightarrow> Inl (AttributeError, gb)
          | Some cs \<Rightarrow>
              place_coins E start_z end_z n
                (gb\<lparr>coin_entities := Some (cs @ [new_entity (x, 1, z)]),
                    total_coins := total_coins gb + 1\<rparr>)))"

definition num_obstacles :: "real \<Rightarrow> real \<Rightarrow> nat" where
  "num_obstacles start_z end_z = nat (max 5 (py_int ((end_z - start_z) / 10)))"

definition num_coins :: "real \<Rightarrow> real \<Rightarrow> nat" where
  "num_coins start_z end_z = nat (max 10 (py_int ((end_z - start_z) / 5)))"

text \<open>The \<open>try\<close> statement with its handler, which prints the exception and goes on.\<close>

definition try_generate_walls :: "real \<Rightarrow> real \<Rightarrow> game \<Rightarrow> game" where
  "try_generate_walls start_z end_z g =
     (case generate_walls start_z end_z g of
        (None, gw) \<Rightarrow> gw
      | (Some e, gw) \<Rightarrow> print (ErrLine ''Error generating track segment'' e) gw)"

definition generate_track_segment :: "engine \<Rightarrow> real \<Rightarrow> real \<Rightarrow> game \<Rightarrow> outcome" where
  "generate_track_segment E start_z end_z g =
     (case place_obstacles E start_z end_z (num_obstacles start_z end_z)
             (try_generate_walls start_z end_z g) of
        Inl x \<Rightarrow> Inl x
      | Inr g2 \<Rightarrow> place_coins E start_z end_z (num_coins start_z end_z) g2)"

definition create_track :: "engine \<Rightarrow> game \<Rightarrow> outcome" where
  "create_track E g =
     (case lookup_texture g ''ground'' of
        Inl e \<Rightarrow> Inl (e, g)
      | Inr t \<Rightarrow>
          generate_track_segment E (- 50) 50
            (g\<lparr>walls := Some [], obstacles := Some [],
               min_generated_z := - 50, max_generated_z := 50\<rparr>))"

section \<open>Progression\<close>

text \<open>\<open>level_up\<close>: the loop over \<open>self.ai_cars\<close> is inside the \<open>try\<close>; a missing
  attribute is caught after level, score and coin counter have been updated.\<close>

definition level_up :: "game \<Rightarrow> game" where
  "level_up g =
     (let g1 = g\<lparr>level := level g + 1\<rparr>;
          g2 = g1\<lparr>score := score g1 + 1000 * level g1\<rparr>;
          g3 = g2\<lparr>coins := 0\<rparr>
      in case ai_cars g3 of
           None \<Rightarrow> print (ErrLine ''Fehler beim Level-Aufstieg'' AttributeError) g3
         | Some cars \<Rightarrow>
             g3\<lparr>ai_cars := Some (map (\<lambda>c. c\<lparr>max_speed := max_speed c * (11 / 10)\<rparr>) cars)\<rparr>)"

definition collect_coin :: "entity \<Rightarrow> game \<Rightarrow> entity \<times> game" where
  "collect_coin c g =
     (let g1 = g\<lparr>coins := coins g + 1\<rparr>;
          g2 = g1\<lparr>score := score g1 + 100 * level g1\<rparr>
      in (destroy c, if total_coins g2 \<le> coins g2 then level_up g2 else g2))"

section \<open>Saving and loading\<close>

text \<open>\<open>save_game\<close> builds the document first (a missing attribute raises before the file
  is opened), then writes it and prints. Only enabled coins are written.\<close>

definition player_record :: "car \<Rightarrow> player_data" where
  "player_record p = \<lparr>pd_position = position p, pd_rotation = rotation p, pd_speed = speed p,
     pd_max_speed = max_speed p, pd_rotation_speed = rotation_speed p\<rparr>"

definition ai_record :: "car \<Rightarrow> ai_data" where
  "ai_record c = \<lparr>ad_position = position c, ad_rotation = rotation c, ad_speed = speed c,
     ad_max_speed = max_speed c\<rparr>"

definition save_record :: "game \<Rightarrow> car \<Rightarrow> entity list \<Rightarrow> car list \<Rightarrow> save_data" where
  "save_record g p cs cars =
     \<lparr>sd_world_seed = world_seed g,
      sd_min_generated_z = min_generated_z g,
      sd_max_generated_z = max_generated_z g,
      sd_player = player_record p,
      sd_coins = map e_position (filter enabled cs),
      sd_ai_cars = map ai_record cars,
      sd_game_state = \<lparr>gs_score = score g, gs_level = level g, gs_coins = coins g,
        gs_total_coins = total_coins g, gs_difficulty = difficulty g\<rparr>\<rparr>"

definition save_game :: "game \<Rightarrow> outcome" where
  "save_game g =
     (case player g of
        None \<Rightarrow> Inl (AttributeError, g)
      | Some p \<Rightarrow>
         (case coin_entities g of
            None \<Rightarrow> Inl (AttributeError, g)
          | Some cs \<Rightarrow>
             (case ai_cars g of
                None \<Rightarrow> Inl (AttributeError, g)
              | Some cars \<Rightarrow>
                  Inr (print (Line ''Spiel gespeichert!'')
                         (g\<lparr>savefile := Some (Saved (save_record g p cs cars))\<rparr>)))))"

text \<open>The loops of \<open>load_game\<close> that rebuild coins and AI cars from the document. The
  texture dictionary was set a few lines earlier in the same call, so the lookup of the
  coin texture cannot fail there.\<close>

fun recreate_coins :: "vec3 list \<Rightarrow> entity list \<Rightarrow> int \<Rightarrow> entity list \<times> int" where
  "recreate_coins [] cs n = (cs, n)"
| "recreate_coins (p # ps) cs n = recreate_coins ps (cs @ [new_entity p]) (n + 1)"

definition restore_ai_car :: "ai_data \<Rightarrow> car" where
  "restore_ai_car d =
     (Car (ad_position d) False)\<lparr>max_speed := ad_max_speed d, speed := ad_speed d,
        rotation := ad_rotation d\<rparr>"

fun recreate_ai_cars :: "nat \<Rightarrow> ai_data list \<Rightarrow> car list \<Rightarrow> game \<Rightarrow> car list \<times> game" where
  "recreate_ai_cars i [] cars g = (cars, g)"
| "recreate_ai_cars i (d # ds) cars g =
     (case generate_car_texture (world_seed g + int i) g of (t, g1) \<Rightarrow>
        recreate_ai_cars (Suc i) ds (cars @ [restore_ai_car d]) g1)"

definition restore_player :: "player_data \<Rightarrow> car" where
  "restore_player d =
     (Car (pd_position d) True)\<lparr>speed := pd_speed d, max_speed := pd_max_speed d,
        rotation_speed := pd_rotation_speed d, rotation := pd_rotation d\<rparr>"

text \<open>\<open>load_game\<close>. The function has no \<open>try\<close>: an exception of \<open>json.load\<close> or of
  \<open>create_track\<close> leaves it. The old cars are destroyed as well; a car has no state that
  records it, and on success they are replaced.\<close>

definition load_game :: "engine \<Rightarrow> game \<Rightarrow> outcome" where
  "load_game E g =
     (case savefile g of
        None \<Rightarrow> Inr (print (Line ''Kein Speicherstand gefunden!'') g)
      | Some Unparseable \<Rightarrow> Inl (JSONDecodeError, g)
      | Some (Saved d) \<Rightarrow>
         (let g1 = g\<lparr>coin_entities := map_option (map destroy) (coin_entities g),
                     walls := map_option (map destroy) (walls g),
                     obstacles := map_option (map destroy) (obstacles g)\<rparr>;
              g2 = seed_random (sd_world_seed d) (g1\<lparr>world_seed := sd_world_seed d\<rparr>);
              (tg, g3) = generate_ground_texture (world_seed g2) g2;
              (tw, g4) = generate_wall_texture (world_seed g3) g3;
              (tc, g5) = generate_coin_texture (world_seed g4) g4;
              g6 = g5\<lparr>textures := Some [(''ground'', tg), (''wall'', tw), (''coin'', tc)]\<rparr>;
              g7 = g6\<lparr>min_generated_z := sd_min_generated_z d,
                      max_generated_z := sd_max_generated_z d\<rparr>
          in case create_track E g7 of
               Inl x \<Rightarrow> Inl x
             | Inr g8 \<Rightarrow>
                (let (cs, n) = recreate_coins (sd_coins d) [] 0;
                     g9 = g8\<lparr>coin_entities := Some cs, total_coins := n\<rparr>;
                     (cars, g10) = recreate_ai_cars 0 (sd_ai_cars d) [] g9;
                     g11 = g10\<lparr>ai_cars := Some cars\<rparr>;
                     (tp, g12) = generate_car_texture (world_seed g11) g11;
                     g13 = g12\<lparr>player := Some (restore_player (sd_player d))\<rparr>
                 in Inr (g13\<lparr>score := gs_score (sd_game_state d),
                              level := gs_level (sd_game_state d),
                              coins := gs_coins (sd_game_state d),
                              difficulty := gs_difficulty (sd_game_state d)\<rparr>))))"

section \<open>Starting a game\<close>

definition initial_game :: game where
  "initial_game =
     \<lparr>game_state = Title, difficulty = ''medium'', coins = 0, level = 1, total_coins = 0,
      score = 0, auto_save_timer = Some 0, textures = None, world_seed = 0,
      ai_speed_factor = None, min_generated_z = 0, max_generated_z = 0, walls = None,
      obstacles = None, coin_entities = None, ai_cars = None, player = None,
      rng = (0, 0), savefile = None, printed = []\<rparr>"

definition set_difficulty :: "string \<Rightarrow> game \<Rightarrow> game" where
  "set_difficulty d g =
     g\<lparr>difficulty := d,
       ai_speed_factor := Some (if d = ''easy'' then 7 / 10
                                else if d = ''medium'' then 9 / 10 else 12 / 10),
       min_generated_z := - 50, max_generated_z := 50, auto_save_timer := Some 0\<rparr>"

text \<open>\<open>spawn_ai_cars\<close>, for \<open>i\<close> in \<open>range(4)\<close>: the position is drawn, the texture generator
  reseeds with \<open>world_seed + i\<close>, the speed factor is read, the car is appended.\<close>

fun spawn_ai_cars_from :: "engine \<Rightarrow> nat \<Rightarrow> nat \<Rightarrow> game \<Rightarrow> outcome" where
  "spawn_ai_cars_from E i 0 g = Inr g"
| "spawn_ai_cars_from E i (Suc n) g =
     (case uniform E (- 10) 10 g of (x, ga) \<Rightarrow>
      case uniform E (- 20) (- 40) ga of (z, gb) \<Rightarrow>
      case generate_car_texture (world_seed gb + int i) gb of (t, gc) \<Rightarrow>
      case ai_speed_factor gc of
        None \<Rightarrow> Inl (AttributeError, gc)
      | Some f \<Rightarrow>
         (case ai_cars gc of
            None \<Rightarrow> Inl (AttributeError, gc)
          | Some cars \<Rightarrow>
              spawn_ai_cars_from E (Suc i) n
                (gc\<lparr>ai_cars := Some (cars @ [(Car (x, 0, z) False)\<lparr>max_speed := 20 * f\<rparr>])\<rparr>)))"

definition spawn_ai_cars :: "engine \<Rightarrow> game \<Rightarrow> outcome" where
  "spawn_ai_cars E g = spawn_ai_cars_from E 0 4 g"

text \<open>\<open>start_game(load_save)\<close>; \<open>seed\<close> is the value that \<open>random.randint(0, 1000000)\<close>
  returns for a new world. The last step reads \<open>self.player\<close> to reset the camera.\<close>

definition start_game :: "engine \<Rightarrow> bool \<Rightarrow> int \<Rightarrow> game \<Rightarrow> outcome" where
  "start_game E load_save seed g =
     (let g0 = g\<lparr>game_state := Playing, score := 0\<rparr>;
          r = (if \<not> load_save then
                 (let g1 = seed_random seed (g0\<lparr>world_seed := seed\<rparr>);
                      (tg, g2) = generate_ground_texture (world_seed g1) g1;
                      (tw, g3) = generate_wall_texture (world_seed g2) g2;
                      (tc, g4) = generate_coin_texture (world_seed g3) g3;
                      g5 = g4\<lparr>textures := Some [(''ground'', tg), (''wall'', tw), (''coin'', tc)],
                              coin_entities := Some []\<rparr>
                  in case create_track E g5 of
                       Inl x \<Rightarrow> Inl x
                     | Inr g6 \<Rightarrow>
                        (case spawn_ai_cars E (g6\<lparr>ai_cars := Some []\<rparr>) of
                           Inl x \<Rightarrow> Inl x
                         | Inr g7 \<Rightarrow>
                            (case generate_car_texture (world_seed g7) g7 of (tp, g8) \<Rightarrow>
                               Inr (g8\<lparr>player := Some (Car (0, 0, 0) True)\<rparr>))))
               else load_game E g0)
      in case r of
           Inl x \<Rightarrow> Inl x
         | Inr g9 \<Rightarrow> (case player g9 of None \<Rightarrow> Inl (AttributeError, g9) | Some p \<Rightarrow> Inr g9))"

section \<open>The game loop\<close>

definition vsub :: "vec3 \<Rightarrow> vec3 \<Rightarrow> vec3" where
  "vsub p q = (vx p - vx q, vy p - vy q, vz p - vz q)"

definition vscale :: "vec3 \<Rightarrow> real \<Rightarrow> vec3" where
  "vscale p k = (vx p * k, vy p * k, vz p * k)"

text \<open>The coin loop of \<open>update\<close>: an enabled coin that touches the player is collected.\<close>

fun check_coins :: "engine \<Rightarrow> car \<Rightarrow> entity list \<Rightarrow> game \<Rightarrow> entity list \<times> game" where
  "check_coins E p [] g = ([], g)"
| "check_coins E p (c # cs) g =
     (if enabled c \<and> entity_intersects_car E c p then
        (case collect_coin c g of (c', g1) \<Rightarrow>
         case check_coins E p cs g1 of (cs', g2) \<Rightarrow> (c' # cs', g2))
      else (case check_coins E p cs g of (cs', g2) \<Rightarrow> (c # cs', g2)))"

text \<open>The loop over \<open>self.walls + self.obstacles\<close>: the player bounces back, its speed is
  reversed and halved, the score loses 10 and stays at 0 or above.\<close>

fun check_solids :: "engine \<Rightarrow> entity list \<Rightarrow> car \<Rightarrow> int \<Rightarrow> car \<times> int" where
  "check_solids E [] p s = (p, s)"
| "check_solids E (e # es) p s =
     (if car_intersects_entity E p e then
        check_solids E es
          (p\<lparr>position := vsub (position p) (vscale (forward E p) (speed p * time_dt E * 2)),
             speed := speed p * (- 1 / 2)\<rparr>)
          (max 0 (s - 10))
      else check_solids E es p s)"

fun check_ai_cars :: "engine \<Rightarrow> car list \<Rightarrow> car \<Rightarrow> int \<Rightarrow> car \<times> int" where
  "check_ai_cars E [] p s = (p, s)"
| "check_ai_cars E (c # cs) p s =
     (if car_intersects_car E c p then
        check_ai_cars E cs (p\<lparr>speed := speed p * (1 / 2)\<rparr>) (max 0 (s - 50))
      else check_ai_cars E cs p s)"

text \<open>Lines 708 to 733 of \<open>update\<close>, the collision phase of a tick: the speed display
  reads \<open>self.player\<close> first, then come the three loops.\<close>

definition check_coin_collisions :: "engine \<Rightarrow> game \<Rightarrow> outcome" where
  "check_coin_collisions E g =
     (case coin_entities g of
        None \<Rightarrow> Inl (AttributeError, g)
      | Some cs \<Rightarrow>
         (case player g of
            None \<Rightarrow> Inl (AttributeError, g)
          | Some p \<Rightarrow>
             (case check_coins E p cs g of (cs', g1) \<Rightarrow>
                Inr (g1\<lparr>coin_entities := Some cs'\<rparr>))))"

definition check_solid_collisions :: "engine \<Rightarrow> game \<Rightarrow> outcome" where
  "check_solid_collisions E g =
     (case walls g of
        None \<Rightarrow> Inl (AttributeError, g)
      | Some ws \<Rightarrow>
         (case obstacles g of
            None \<Rightarrow> Inl (AttributeError, g)
          | Some os \<Rightarrow>
             (case player g of
                None \<Rightarrow> Inl (AttributeError, g)
              | Some p \<Rightarrow>
                 (case check_solids E (ws @ os) p (score g) of (p1, s1) \<Rightarrow>
                    Inr (g\<lparr>player := Some p1, score := s1\<rparr>)))))"

definition check_ai_collisions :: "engine \<Rightarrow> game \<Rightarrow> outcome" where
  "check_ai_collisions E g =
     (case ai_cars g of
        None \<Rightarrow> Inl (AttributeError, g)
      | Some cars \<Rightarrow>
         (case player g of
            None \<Rightarrow> Inl (AttributeError, g)
          | Some p \<Rightarrow>
             (case check_ai_cars E cars p (score g) of (p1, s1) \<Rightarrow>
                Inr (g\<lparr>player := Some p1, score := s1\<rparr>))))"

definition update_collisions :: "engine \<Rightarrow> game \<Rightarrow> outcome" where
  "update_collisions E g =
     (case player g of
        None \<Rightarrow> Inl (AttributeError, g)
      | Some p \<Rightarrow>
         (case check_coin_collisions E g of
            Inl x \<Rightarrow> Inl x
          | Inr g1 \<Rightarrow>
             (case check_solid_collisions E g1 of
                Inl x \<Rightarrow> Inl x
              | Inr g2 \<Rightarrow> check_ai_collisions E g2)))"

text \<open>\<open>generate_more_terrain\<close>, its three \<open>if\<close> statements in order: extension ahead,
  extension behind, recentering. The bound is moved before the segment is generated.\<close>

definition extend_forward :: "engine \<Rightarrow> real \<Rightarrow> game \<Rightarrow> outcome" where
  "extend_forward E pz g =
     (if pz > max_generated_z g - 50 then
        (let new_min = max_generated_z g;
             g1 = g\<lparr>max_generated_z := max_generated_z g + 50\<rparr>
         in generate_track_segment E new_min (max_generated_z g1) g1)
      else Inr g)"

definition extend_backward :: "engine \<Rightarrow> real \<Rightarrow> game \<Rightarrow> outcome" where
  "extend_backward E pz g =
     (if pz < min_generated_z g + 50 then
        (let new_max = min_generated_z g;
             g1 = g\<lparr>min_generated_z := min_generated_z g - 50\<rparr>
         in generate_track_segment E (min_generated_z g1) new_max g1)
      else Inr g)"

definition shift_entity :: "real \<Rightarrow> entity \<Rightarrow> entity" where
  "shift_entity offset e = e\<lparr>e_position := set_z (vz (e_position e) - offset) (e_position e)\<rparr>"

definition shift_car :: "real \<Rightarrow> car \<Rightarrow> car" where
  "shift_car offset c = c\<lparr>position := set_z (vz (position c) - offset) (position c)\<rparr>"

definition recenter :: "game \<Rightarrow> outcome" where
  "recenter g =
     (case player g of
        None \<Rightarrow> Inl (AttributeError, g)
      | Some p \<Rightarrow>
         if \<bar>vz (position p)\<bar> > 1000 then
           (let offset = vz (position p);
                g1 = g\<lparr>player := Some (p\<lparr>position := set_z 0 (position p)\<rparr>)\<rparr>
            in case walls g1 of
                 None \<Rightarrow> Inl (AttributeError, g1)
               | Some ws \<Rightarrow>
                  (let g2 = g1\<lparr>walls := Some (map (shift_entity offset) ws)\<rparr>
                   in case obstacles g2 of
                        None \<Rightarrow> Inl (AttributeError, g2)
                      | Some os \<Rightarrow>
                         (let g3 = g2\<lparr>obstacles := Some (map (shift_entity offset) os)\<rparr>
                          in case coin_entities g3 of
                               None \<Rightarrow> Inl (AttributeError, g3)
                             | Some cs \<Rightarrow>
                                (let g4 = g3\<lparr>coin_entities := Some (map (shift_entity offset) cs)\<rparr>
                                 in case ai_cars g4 of
                                      None \<Rightarrow> Inl (AttributeError, g4)
                                    | Some cars \<Rightarrow>
                                        Inr (g4\<lparr>ai_cars := Some (map (shift_car offset) cars)\<rparr>)))))
         else Inr g)"

definition generate_more_terrain :: "engine \<Rightarrow> game \<Rightarrow> outcome" where
  "generate_more_terrain E g =
     (case player g of
        None \<Rightarrow> Inl (AttributeError, g)
      | Some p \<Rightarrow>
         (case extend_forward E (vz (position p)) g of
            Inl x \<Rightarrow> Inl x
          | Inr g1 \<Rightarrow>
             (case extend_backward E (vz (position p)) g1 of
                Inl x \<Rightarrow> Inl x
              | Inr g2 \<Rightarrow> recenter g2)))"

text \<open>Lines 735 to 747 of \<open>update\<close>: terrain streaming and the auto-save timer, both under
  the test \<open>abs(self.player.z) > 150\<close>.\<close>

definition auto_save :: "engine \<Rightarrow> game \<Rightarrow> outcome" where
  "auto_save E g =
     (case auto_save_timer g of
        Some t \<Rightarrow>
          (let g1 = g\<lparr>auto_save_timer := Some (t + time_dt E)\<rparr>
           in if 60 \<le> t + time_dt E then
                (case save_game g1 of
                   Inl x \<Rightarrow> Inl x
                 | Inr g2 \<Rightarrow>
                     Inr ((print (Line ''Spiel automatisch gespeichert!'') g2)
                            \<lparr>auto_save_timer := Some 0\<rparr>))
              else Inr g1)
      | None \<Rightarrow> Inr (g\<lparr>auto_save_timer := Some 0\<rparr>))"

definition update_terrain :: "engine \<Rightarrow> game \<Rightarrow> outcome" where
  "update_terrain E g =
     (case player g of
        None \<Rightarrow> Inl (AttributeError, g)
      | Some p \<Rightarrow>
         if \<bar>vz (position p)\<bar> > 150 then
           (case generate_more_terrain E g of
              Inl x \<Rightarrow> Inl x
            | Inr g1 \<Rightarrow> auto_save E g1)
         else Inr g)"

text \<open>\<open>update\<close>, one tick: nothing outside the playing state; any exception is caught
  and printed, and the state stays as mutated up to the raise.\<close>

definition update :: "engine \<Rightarrow> game \<Rightarrow> game" where
  "update E g =
     (if game_state g \<noteq> Playing then g
      else (case (case update_collisions E g of
                    Inl x \<Rightarrow> Inl x
                  | Inr g1 \<Rightarrow> update_terrain E g1) of
              Inl (e, g2) \<Rightarrow> print (ErrLine ''Fehler im Spielupdate'' e) g2
            | Inr g2 \<Rightarrow> g2))"

section \<open>Derived notions used in the properties\<close>

text \<open>The positions that a placement loop of \<open>n\<close> rounds draws from the generator state
  \<open>r\<close>: x from \<open>uniform(-12, 12)\<close>, then z from \<open>uniform(s, e)\<close>, at height 1.\<close>

fun scatter :: "engine \<Rightarrow> real \<Rightarrow> real \<Rightarrow> nat \<Rightarrow> int \<times> nat \<Rightarrow> vec3 list" where
  "scatter E s e 0 r = []"
| "scatter E s e (Suc n) r =
     (- 12 + 24 * random_stream E (fst r) (snd r), 1,
      s + (e - s) * random_stream E (fst r) (Suc (snd r))) # scatter E s e n (fst r, snd r + 2)"

text \<open>\<open>random()\<close> yields values in [0, 1).\<close>

definition unit_stream :: "engine \<Rightarrow> bool" where
  "unit_stream E = (\<forall>s n. 0 \<le> random_stream E s n \<and> random_stream E s n < 1)"

text \<open>The walls of one side, and an obstacle or coin inside the segment from \<open>s\<close> to \<open>e\<close>.\<close>

definition left_walls :: "entity list \<Rightarrow> entity list" where
  "left_walls ws = filter (\<lambda>w. vx (e_position w) = 15) ws"

definition right_walls :: "entity list \<Rightarrow> entity list" where
  "right_walls ws = filter (\<lambda>w. vx (e_position w) = - 15) ws"

definition in_segment :: "real \<Rightarrow> real \<Rightarrow> entity \<Rightarrow> bool" where
  "in_segment s e a = (s \<le> vz (e_position a) \<and> vz (e_position a) \<le> e
      \<and> - 12 \<le> vx (e_position a) \<and> vx (e_position a) \<le> 12)"

text \<open>An engine for concrete runs: 60 frames per second, nothing touches anything, and a
  generator that cycles through the tenths.\<close>

definition still_engine :: engine where
  "still_engine = \<lparr>time_dt = 1 / 60, forward = (\<lambda>c. (0, 0, 1)),
     random_stream = (\<lambda>s n. real ((nat \<bar>s\<bar> + 7 * n) mod 10) / 10), entity_intersects_car = (\<lambda>e c. False),
     car_intersects_entity = (\<lambda>c e. False), car_intersects_car = (\<lambda>c d. False)\<rparr>"

text \<open>A world with textures and empty collections, as \<open>create_track\<close> has it just before
  it generates the first segment; and the walls of that first segment from -50 to 50.\<close>

definition empty_track :: game where
  "empty_track = initial_game\<lparr>textures := Some [(''ground'', Texture ''ground'' 7),
       (''wall'', Texture ''wall'' 7), (''coin'', Texture ''coin'' 7)],
     walls := Some [], obstacles := Some [], coin_entities := Some []\<rparr>"

definition initial_walls :: "entity list" where
  "initial_walls = concat (map (\<lambda>k. [new_entity (15, 1 / 2, 2 * real k - 50),
                               new_entity (- 15, 1 / 2, 2 * real k - 50)]) [0..<51])"


text \<open>A world as a running game has it: every collection and the player exist, and the
  wall and coin textures are in the dictionary.\<close>

definition live :: "game \<Rightarrow> bool" where
  "live g = (player g \<noteq> None \<and> walls g \<noteq> None \<and> obstacles g \<noteq> None
     \<and> coin_entities g \<noteq> None \<and> ai_cars g \<noteq> None
     \<and> \<not> isl (lookup_texture g ''wall'') \<and> \<not> isl (lookup_texture g ''coin''))"

text \<open>Concrete runs: the menu after choosing a difficulty, and a new world with seed 7.\<close>

definition menu_game :: game where
  "menu_game = set_difficulty ''medium'' initial_game"

definition new_world :: game where
  "new_world = state_of (start_game still_engine False 7 menu_game)"

text \<open>The generated range, and the order in which it may only grow.\<close>

definition bounds :: "game \<Rightarrow> real \<times> real" where
  "bounds g = (min_generated_z g, max_generated_z g)"

definition grows :: "game \<Rightarrow> game \<Rightarrow> bool" where
  "grows g g' = (min_generated_z g' \<le> min_generated_z g \<and> max_generated_z g \<le> max_generated_z g')"

text \<open>What terrain streaming, recentering and auto-saving can change: the bounds, the
  walls and obstacles, the places of coins and AI cars, the timer and the save file.\<close>

definition terrain_view ::
  "game \<Rightarrow> (real \<times> real) \<times> entity list option \<times> entity list option \<times> vec3 list option
     \<times> vec3 list option \<times> real option \<times> savefile_content option" where
  "terrain_view g = (bounds g, walls g, obstacles g,
     map_option (map e_position) (coin_entities g), map_option (map position) (ai_cars g),
     auto_save_timer g, savefile g)"

text \<open>The value of \<open>self.player.z\<close> that line 736 of \<open>update\<close> tests, when the tick gets
  there.\<close>

definition gate_z :: "engine \<Rightarrow> game \<Rightarrow> real option" where
  "gate_z E g =
     (case update_collisions E g of
        Inl x \<Rightarrow> None
      | Inr g1 \<Rightarrow> map_option (\<lambda>p. vz (position p)) (player g1))"

text \<open>What a terrain step leaves alone in a live world.\<close>

definition keeps_session :: "game \<Rightarrow> game \<Rightarrow> bool" where
  "keeps_session g g' = (live g' \<and> player g' = player g \<and> ai_cars g' = ai_cars g
     \<and> auto_save_timer g' = auto_save_timer g \<and> savefile g' = savefile g
     \<and> game_state g' = game_state g)"

text \<open>The number of obstacles and of coins (collected ones included) in the world.\<close>

definition count_obstacles :: "game \<Rightarrow> nat" where
  "count_obstacles g = (case obstacles g of None \<Rightarrow> 0 | Some os \<Rightarrow> length os)"

definition count_coins :: "game \<Rightarrow> nat" where
  "count_coins g = (case coin_entities g of None \<Rightarrow> 0 | Some cs \<Rightarrow> length cs)"

text \<open>The new world after the engine has moved the player car to depth \<open>z\<close>.\<close>

definition driven_to :: "real \<Rightarrow> game" where
  "driven_to z = new_world\<lparr>player := Some ((Car (0, 0, 0) True)\<lparr>position := (0, 0, z)\<rparr>)\<rparr>"

text \<open>A save document of a game in which 18 of 20 coins were collected, and a running
  game whose save file holds it.\<close>

definition sample_save :: save_data where
  "sample_save =
     \<lparr>sd_world_seed = 7, sd_min_generated_z = - 50, sd_max_generated_z = 50,
      sd_player = \<lparr>pd_position = (0, 0, 10), pd_rotation = (0, 0, 0), pd_speed = 5,
        pd_max_speed = 20, pd_rotation_speed = 60\<rparr>,
      sd_coins = [(3, 1, 20), (- 4, 1, 35)],
      sd_ai_cars = [],
      sd_game_state = \<lparr>gs_score = 1800, gs_level = 1, gs_coins = 18, gs_total_coins = 20,
        gs_difficulty = ''medium''\<rparr>\<rparr>"

definition world_with_save :: game where
  "world_with_save = new_world\<lparr>savefile := Some (Saved sample_save)\<rparr>"


text \<open>No two walls on the same side with z-coordinates less than 0.1 apart.\<close>

definition same_side :: "entity \<Rightarrow> entity \<Rightarrow> bool" where
  "same_side a b = (vx (e_position a) = vx (e_position b))"

definition apart :: "entity \<Rightarrow> entity \<Rightarrow> bool" where
  "apart a b = (\<not> same_side a b \<or> 1 / 10 \<le> \<bar>vz (e_position a) - vz (e_position b)\<bar>)"

fun no_dup_walls :: "entity list \<Rightarrow> bool" where
  "no_dup_walls [] = True"
| "no_dup_walls (w # ws) = (list_all (apart w) ws \<and> no_dup_walls ws)"

definition walls_ok :: "game \<Rightarrow> bool" where
  "walls_ok g = (case walls g of None \<Rightarrow> False | Some ws \<Rightarrow> no_dup_walls ws)"




text \<open>Walls in pairs: every wall is at x = 15 or x = -15 and has its partner on the other
  side at the same z.\<close>

definition paired :: "entity list \<Rightarrow> bool" where
  "paired ws =
     (\<forall>w \<in> set ws. (vx (e_position w) = 15 \<or> vx (e_position w) = - 15)
        \<and> (\<exists>v \<in> set ws. vx (e_position v) = - vx (e_position w)
              \<and> vz (e_position v) = vz (e_position w)))"

section \<open>Properties\<close>

lemma place_obstacles_eq:
  assumes "lookup_texture g ''wall'' = Inr t" "obstacles g = Some os"
  shows "place_obstacles E s e n g =
     Inr (g\<lparr>obstacles := Some (os @ map new_entity (scatter E s e n (rng g))),
            rng := (fst (rng g), snd (rng g) + 2 * n)\<rparr>)"
  using assms
proof (induction n arbitrary: g os)
  case 0
  then show ?case by simp
next
  case (Suc n)
  let ?ga = "snd (uniform E (- 12) 12 g)"
  let ?gb = "snd (uniform E s e ?ga)"
  let ?x = "fst (uniform E (- 12) 12 g)"
  let ?z = "fst (uniform E s e ?ga)"
  let ?g' = "?gb\<lparr>obstacles := Some (os @ [new_entity (?x, 1, ?z)])\<rparr>"
  have tex: "lookup_texture ?gb ''wall'' = Inr t" "lookup_texture ?g' ''wall'' = Inr t"
    using Suc.prems(1) by (simp_all add: lookup_texture_def uniform_def)
  have ob: "obstacles ?gb = Some os" using Suc.prems(2) by (simp add: uniform_def)
  have step: "place_obstacles E s e (Suc n) g = place_obstacles E s e n ?g'"
    using tex ob by (simp add: case_prod_beta)
  have "place_obstacles E s e n ?g' =
     Inr (?g'\<lparr>obstacles := Some ((os @ [new_entity (?x, 1, ?z)]) @ map new_entity (scatter E s e n (rng ?g'))),
            rng := (fst (rng ?g'), snd (rng ?g') + 2 * n)\<rparr>)"
    by (rule Suc.IH[OF tex(2)]) simp
  then show ?case
    unfolding step by (simp add: uniform_def)
qed

lemma place_coins_eq:
  assumes "lookup_texture g ''coin'' = Inr t" "coin_entities g = Some cs"
  shows "place_coins E s e n g =
     Inr (g\<lparr>coin_entities := Some (cs @ map new_entity (scatter E s e n (rng g))),
            total_coins := total_coins g + int n,
            rng := (fst (rng g), snd (rng g) + 2 * n)\<rparr>)"
  using assms
proof (induction n arbitrary: g cs)
  case 0
  then show ?case by simp
next
  case (Suc n)
  let ?ga = "snd (uniform E (- 12) 12 g)"
  let ?gb = "snd (uniform E s e ?ga)"
  let ?x = "fst (uniform E (- 12) 12 g)"
  let ?z = "fst (uniform E s e ?ga)"
  let ?g' = "?gb\<lparr>coin_entities := Some (cs @ [new_entity (?x, 1, ?z)]),
                 total_coins := total_coins ?gb + 1\<rparr>"
  have tex: "lookup_texture ?gb ''coin'' = Inr t" "lookup_texture ?g' ''coin'' = Inr t"
    using Suc.prems(1) by (simp_all add: lookup_texture_def uniform_def)
  have ob: "coin_entities ?gb = Some cs" using Suc.prems(2) by (simp add: uniform_def)
  have step: "place_coins E s e (Suc n) g = place_coins E s e n ?g'"
    using tex ob by (simp add: case_prod_beta)
  have "place_coins E s e n ?g' =
     Inr (?g'\<lparr>coin_entities := Some ((cs @ [new_entity (?x, 1, ?z)]) @ map new_entity (scatter E s e n (rng ?g'))),
            total_coins := total_coins ?g' + int n,
            rng := (fst (rng ?g'), snd (rng ?g') + 2 * n)\<rparr>)"
    by (rule Suc.IH[OF tex(2)]) simp
  then show ?case
    unfolding step by (simp add: uniform_def)
qed

lemma try_generate_walls_shape:
  "try_generate_walls s e g =
     g\<lparr>walls := walls (try_generate_walls s e g), printed := printed (try_generate_walls s e g)\<rparr>"
  by (auto simp: try_generate_walls_def generate_walls_def print_def
      split: option.splits prod.splits)


lemma try_generate_walls_frame:
  "textures (try_generate_walls s e g) = textures g"
  "obstacles (try_generate_walls s e g) = obstacles g"
  "coin_entities (try_generate_walls s e g) = coin_entities g"
  "total_coins (try_generate_walls s e g) = total_coins g"
  "rng (try_generate_walls s e g) = rng g"
  "min_generated_z (try_generate_walls s e g) = min_generated_z g"
  "max_generated_z (try_generate_walls s e g) = max_generated_z g"
  by (subst try_generate_walls_shape, simp)+

lemma generate_track_segment_eq:
  assumes "lookup_texture g ''wall'' = Inr tw" "lookup_texture g ''coin'' = Inr tc"
    "obstacles g = Some os" "coin_entities g = Some cs"
  shows "generate_track_segment E s e g =
     Inr ((try_generate_walls s e g)
       \<lparr>obstacles := Some (os @ map new_entity (scatter E s e (num_obstacles s e) (rng g))),
        coin_entities := Some (cs @ map new_entity
           (scatter E s e (num_coins s e) (fst (rng g), snd (rng g) + 2 * num_obstacles s e))),
        total_coins := total_coins g + int (num_coins s e),
        rng := (fst (rng g), snd (rng g) + 2 * num_obstacles s e + 2 * num_coins s e)\<rparr>)"
proof -
  let ?g1 = "try_generate_walls s e g"
  have w: "lookup_texture ?g1 ''wall'' = Inr tw"
    using assms(1) by (simp add: lookup_texture_def try_generate_walls_frame)
  have o: "place_obstacles E s e (num_obstacles s e) ?g1 =
     Inr (?g1\<lparr>obstacles := Some (os @ map new_entity (scatter E s e (num_obstacles s e) (rng ?g1))),
            rng := (fst (rng ?g1), snd (rng ?g1) + 2 * num_obstacles s e)\<rparr>)"
    (is "_ = Inr ?g2")
    by (rule place_obstacles_eq[OF w]) (simp add: try_generate_walls_frame assms)
  have c: "lookup_texture ?g2 ''coin'' = Inr tc"
    using assms(2) by (simp add: lookup_texture_def try_generate_walls_frame)
  have "place_coins E s e (num_coins s e) ?g2 =
     Inr (?g2\<lparr>coin_entities := Some (cs @ map new_entity (scatter E s e (num_coins s e) (rng ?g2))),
            total_coins := total_coins ?g2 + int (num_coins s e),
            rng := (fst (rng ?g2), snd (rng ?g2) + 2 * num_coins s e)\<rparr>)"
    by (rule place_coins_eq[OF c]) (simp add: try_generate_walls_frame assms)
  then show ?thesis
    by (simp add: generate_track_segment_def o try_generate_walls_frame)
qed

lemma scatter_length: "length (scatter E s e n r) = n"
  by (induction n arbitrary: r) simp_all

lemma scatter_range:
  assumes "unit_stream E" "s \<le> e" "p \<in> set (scatter E s e n r)"
  shows "s \<le> vz p \<and> vz p \<le> e \<and> - 12 \<le> vx p \<and> vx p \<le> 12"
  using assms(3)
proof (induction n arbitrary: r)
  case 0
  then show ?case by simp
next
  case (Suc n)
  have u: "0 \<le> random_stream E a b" "random_stream E a b \<le> 1" for a b
    using assms(1) by (simp_all add: unit_stream_def less_imp_le)
  have "0 \<le> (e - s) * random_stream E a b" for a b
    using u assms(2) by simp
  moreover have "(e - s) * random_stream E a b \<le> e - s" for a b
    using u[of a b] assms(2) by (simp add: mult_left_le)
  ultimately have z: "s \<le> s + (e - s) * random_stream E a b"
    "s + (e - s) * random_stream E a b \<le> e" for a b
    by (smt (verit))+
  from Suc.prems consider
    "p = (- 12 + 24 * random_stream E (fst r) (snd r), 1,
          s + (e - s) * random_stream E (fst r) (Suc (snd r)))"
    | "p \<in> set (scatter E s e n (fst r, snd r + 2))"
    by auto
  then show ?case
  proof cases
    case 1
    then show ?thesis using u[of "fst r" "snd r"] z by (simp add: vx_def vz_def)
  next
    case 2
    then show ?thesis by (rule Suc.IH)
  qed
qed

lemma walls_while_0_50:
  assumes "lookup_texture g ''wall'' = Inr t"
  shows "walls_while g [] 0 50 =
    (None, concat (map (\<lambda>k. [new_entity (15, 1 / 2, 2 * real k),
                               new_entity (- 15, 1 / 2, 2 * real k)]) [0..<26]))"
  using assms
  by (simp add: walls_while.simps wall_near_def vz_def new_entity_def upt_rec)

lemma try_generate_walls_0_50:
  assumes "lookup_texture g ''wall'' = Inr t" "walls g = Some []"
  shows "walls (try_generate_walls 0 50 g) =
    Some (concat (map (\<lambda>k. [new_entity (15, 1 / 2, 2 * real k),
                               new_entity (- 15, 1 / 2, 2 * real k)]) [0..<26]))"
  using assms
  by (simp add: try_generate_walls_def generate_walls_def walls_while_0_50 del: upt.upt_Suc)

lemma counts_0_50: "num_obstacles 0 50 = 5" "num_coins 0 50 = 10"
  by (simp_all add: num_obstacles_def num_coins_def py_int_def)

lemma wall_pairs_length:
  "length (concat (map (\<lambda>k. [new_entity (15, y, z k), new_entity (- 15, y, z k)]) ks))
     = 2 * length ks"
  by (induction ks) simp_all

lemma wall_pairs_left:
  "left_walls (concat (map (\<lambda>k. [new_entity (15, y, z k), new_entity (- 15, y, z k)]) ks))
     = map (\<lambda>k. new_entity (15, y, z k)) ks"
  by (induction ks) (simp_all add: left_walls_def new_entity_def vx_def)

lemma wall_pairs_right:
  "right_walls (concat (map (\<lambda>k. [new_entity (15, y, z k), new_entity (- 15, y, z k)]) ks))
     = map (\<lambda>k. new_entity (- 15, y, z k)) ks"
  by (induction ks) (simp_all add: right_walls_def new_entity_def vx_def)

text \<open>
  Claim C6, as amended. On a world whose wall list is empty, \<open>generate_track_segment(0, 50)\<close>
  returns normally and leaves exactly 26 wall pairs, a left wall at x = 15 and a right wall
  at x = -15 for each z = 0, 2, ..., 50 (the bound \<open>z <= end_z\<close> is inclusive); it appends
  exactly 5 obstacles and exactly 10 coins, each with z in [0, 50] and x in [-12, 12],
  provided \<open>random()\<close> yields values in [0, 1).
\<close>

theorem segment_0_50_contents:
  assumes "walls g = Some []" "obstacles g = Some os" "coin_entities g = Some cs"
    "lookup_texture g ''wall'' = Inr tw" "lookup_texture g ''coin'' = Inr tc"
    "unit_stream E"
  shows "\<exists>g' new_os new_cs.
     generate_track_segment E 0 50 g = Inr g'
     \<and> walls g' = Some (concat (map (\<lambda>k. [new_entity (15, 1 / 2, 2 * real k),
                               new_entity (- 15, 1 / 2, 2 * real k)]) [0..<26]))
     \<and> obstacles g' = Some (os @ new_os) \<and> length new_os = 5
     \<and> coin_entities g' = Some (cs @ new_cs) \<and> length new_cs = 10
     \<and> list_all (in_segment 0 50) (new_os @ new_cs)"
proof -
  let ?no = "map new_entity (scatter E 0 50 5 (rng g))"
  let ?nc = "map new_entity (scatter E 0 50 10 (fst (rng g), snd (rng g) + 2 * 5))"
  have r: "in_segment 0 50 (new_entity p)" if "p \<in> set (scatter E 0 50 n r)" for p n r
    using scatter_range[OF assms(6) _ that] by (simp add: in_segment_def new_entity_def)
  have "list_all (in_segment 0 50) (?no @ ?nc)"
    by (auto simp: list_all_iff intro: r)
  moreover have "length ?no = 5" "length ?nc = 10"
    by (simp_all add: scatter_length)
  ultimately show ?thesis
    using generate_track_segment_eq[OF assms(4,5,2,3), of E 0 50]
      try_generate_walls_0_50[OF assms(4,1)]
    by (intro exI[of _ "state_of (generate_track_segment E 0 50 g)"] exI[of _ ?no] exI[of _ ?nc])
       (simp add: counts_0_50 state_of_def del: upt.upt_Suc)
qed

lemma still_engine_unit: "unit_stream still_engine"
proof -
  have "real (k mod 10) < 10" for k :: nat
    by simp
  then show ?thesis
    by (simp add: unit_stream_def still_engine_def)
qed

lemma empty_track_fields:
  "walls empty_track = Some []" "obstacles empty_track = Some []"
  "coin_entities empty_track = Some []"
  "lookup_texture empty_track ''wall'' = Inr (Texture ''wall'' 7)"
  "lookup_texture empty_track ''coin'' = Inr (Texture ''coin'' 7)"
  by (simp_all add: empty_track_def initial_game_def lookup_texture_def)

text \<open>The statement of C6 applies to the empty track with a constant generator.\<close>

theorem segment_0_50_contents_witness:
  "walls empty_track = Some [] \<and> obstacles empty_track = Some []
   \<and> coin_entities empty_track = Some []
   \<and> lookup_texture empty_track ''wall'' = Inr (Texture ''wall'' 7)
   \<and> lookup_texture empty_track ''coin'' = Inr (Texture ''coin'' 7)
   \<and> unit_stream still_engine
   \<and> raised (generate_track_segment still_engine 0 50 empty_track) = None
   \<and> map_option length (walls (state_of (generate_track_segment still_engine 0 50 empty_track)))
       = Some 52
   \<and> map_option length (obstacles (state_of (generate_track_segment still_engine 0 50 empty_track)))
       = Some 5
   \<and> map_option length (coin_entities (state_of (generate_track_segment still_engine 0 50 empty_track)))
       = Some 10"
  using segment_0_50_contents[OF empty_track_fields still_engine_unit]
  by (auto simp: empty_track_fields still_engine_unit raised_def state_of_def wall_pairs_length
      simp del: upt.upt_Suc)

text \<open>Claim C6 as stated asks for exactly 25 wall pairs; the call places 26 on each side.\<close>

theorem segment_0_50_wall_pairs_counterexample:
  "map_option (length \<circ> left_walls)
      (walls (state_of (generate_track_segment still_engine 0 50 empty_track))) = Some 26
   \<and> map_option (length \<circ> right_walls)
      (walls (state_of (generate_track_segment still_engine 0 50 empty_track))) = Some 26
   \<and> map_option (length \<circ> left_walls)
      (walls (state_of (generate_track_segment still_engine 0 50 empty_track))) \<noteq> Some 25"
  using generate_track_segment_eq[OF empty_track_fields(4,5,2,3), of still_engine 0 50]
    try_generate_walls_0_50[OF empty_track_fields(4,1)]
  by (simp add: state_of_def wall_pairs_left wall_pairs_right del: upt.upt_Suc)

lemma create_track_eq:
  assumes "lookup_texture g ''ground'' = Inr tg" "lookup_texture g ''wall'' = Inr tw"
    "lookup_texture g ''coin'' = Inr tc" "coin_entities g = Some cs"
  shows "create_track E g =
     Inr ((try_generate_walls (- 50) 50
            (g\<lparr>walls := Some [], obstacles := Some [],
               min_generated_z := - 50, max_generated_z := 50\<rparr>))
       \<lparr>obstacles := Some (map new_entity (scatter E (- 50) 50 10 (rng g))),
        coin_entities := Some (cs @ map new_entity
           (scatter E (- 50) 50 20 (fst (rng g), snd (rng g) + 20))),
        total_coins := total_coins g + 20,
        rng := (fst (rng g), snd (rng g) + 60)\<rparr>)"
proof -
  let ?g = "g\<lparr>walls := Some [], obstacles := Some [],
               min_generated_z := - 50, max_generated_z := 50\<rparr>"
  have n: "num_obstacles (- 50) 50 = 10" "num_coins (- 50) 50 = 20"
    by (simp_all add: num_obstacles_def num_coins_def py_int_def)
  have "generate_track_segment E (- 50) 50 ?g = Inr ((try_generate_walls (- 50) 50 ?g)
       \<lparr>obstacles := Some ([] @ map new_entity (scatter E (- 50) 50 (num_obstacles (- 50) 50) (rng ?g))),
        coin_entities := Some (cs @ map new_entity
           (scatter E (- 50) 50 (num_coins (- 50) 50)
              (fst (rng ?g), snd (rng ?g) + 2 * num_obstacles (- 50) 50))),
        total_coins := total_coins ?g + int (num_coins (- 50) 50),
        rng := (fst (rng ?g), snd (rng ?g) + 2 * num_obstacles (- 50) 50
                  + 2 * num_coins (- 50) 50)\<rparr>)"
    by (rule generate_track_segment_eq[where tw = tw and tc = tc])
       (use assms in \<open>simp_all add: lookup_texture_def\<close>)
  then show ?thesis
    using assms(1) by (simp add: create_track_def n)
qed

lemma walls_while_initial:
  assumes "lookup_texture g ''wall'' = Inr t"
  shows "walls_while g [] (- 50) 50 =
    (None, concat (map (\<lambda>k. [new_entity (15, 1 / 2, 2 * real k - 50),
                               new_entity (- 15, 1 / 2, 2 * real k - 50)]) [0..<51]))"
  using assms
  by (simp add: walls_while.simps wall_near_def vz_def new_entity_def upt_rec)

lemma try_generate_walls_initial:
  assumes "lookup_texture g ''wall'' = Inr t" "walls g = Some []"
  shows "try_generate_walls (- 50) 50 g = g\<lparr>walls := Some initial_walls\<rparr>"
  using assms
  by (simp add: try_generate_walls_def generate_walls_def walls_while_initial initial_walls_def
      del: upt.upt_Suc)

lemma recreate_coins_eq:
  "recreate_coins ps cs n = (cs @ map new_entity ps, n + int (length ps))"
  by (induction ps arbitrary: cs n) simp_all

lemma recreate_ai_cars_eq:
  "recreate_ai_cars i ds cars g =
     (cars @ map restore_ai_car ds,
      g\<lparr>rng := (if ds = [] then rng g
                 else (world_seed g + int i + int (length ds) - 1, 0))\<rparr>)"
proof (induction ds arbitrary: i cars g)
  case Nil
  show ?case by simp
next
  case (Cons d ds)
  show ?case
    by (simp add: Cons.IH generate_car_texture_def seed_random_def)
qed


lemma load_game_saved:
  assumes "savefile g = Some (Saved d)" "coin_entities g = Some cs"
  shows "\<exists>g'. load_game E g = Inr g'
    \<and> world_seed g' = sd_world_seed d
    \<and> min_generated_z g' = - 50 \<and> max_generated_z g' = 50
    \<and> walls g' = Some initial_walls
    \<and> obstacles g' = Some (map new_entity (scatter E (- 50) 50 10 (sd_world_seed d, 0)))
    \<and> coin_entities g' = Some (map new_entity (sd_coins d))
    \<and> total_coins g' = int (length (sd_coins d))
    \<and> ai_cars g' = Some (map restore_ai_car (sd_ai_cars d))
    \<and> player g' = Some (restore_player (sd_player d))
    \<and> score g' = gs_score (sd_game_state d)
    \<and> level g' = gs_level (sd_game_state d)
    \<and> coins g' = gs_coins (sd_game_state d)
    \<and> difficulty g' = gs_difficulty (sd_game_state d)
    \<and> savefile g' = savefile g \<and> game_state g' = game_state g
    \<and> auto_save_timer g' = auto_save_timer g \<and> printed g' = printed g
    \<and> rng g' = (sd_world_seed d, 0)"
proof -
  define s where "s = sd_world_seed d"
  define g7 where "g7 = g\<lparr>coin_entities := Some (map destroy cs),
      walls := map_option (map destroy) (walls g),
      obstacles := map_option (map destroy) (obstacles g),
      world_seed := s, rng := (s, 0),
      textures := Some [(''ground'', Texture ''ground'' s), (''wall'', Texture ''wall'' s),
        (''coin'', Texture ''coin'' s)],
      min_generated_z := sd_min_generated_z d, max_generated_z := sd_max_generated_z d\<rparr>"
  define g0 where "g0 = g7\<lparr>walls := Some [], obstacles := Some [],
               min_generated_z := - 50, max_generated_z := 50\<rparr>"
  have tw: "try_generate_walls (- 50) 50 g0 = g0\<lparr>walls := Some initial_walls\<rparr>"
    by (rule try_generate_walls_initial[where t = "Texture ''wall'' s"])
       (simp_all add: g0_def g7_def lookup_texture_def)
  have "create_track E g7 =
     Inr ((try_generate_walls (- 50) 50 g0)
       \<lparr>obstacles := Some (map new_entity (scatter E (- 50) 50 10 (rng g7))),
        coin_entities := Some (map destroy cs @ map new_entity
           (scatter E (- 50) 50 20 (fst (rng g7), snd (rng g7) + 20))),
        total_coins := total_coins g7 + 20,
        rng := (fst (rng g7), snd (rng g7) + 60)\<rparr>)"
    unfolding g0_def
    by (rule create_track_eq[where tg = "Texture ''ground'' s" and tw = "Texture ''wall'' s"
          and tc = "Texture ''coin'' s"])
       (simp_all add: g7_def lookup_texture_def)
  then have ct: "create_track E g7 =
     Inr (g0\<lparr>walls := Some initial_walls,
        obstacles := Some (map new_entity (scatter E (- 50) 50 10 (s, 0))),
        coin_entities := Some (map destroy cs @ map new_entity (scatter E (- 50) 50 20 (s, 20))),
        total_coins := total_coins g + 20,
        rng := (s, 60)\<rparr>)" (is "_ = Inr ?g8")
    by (simp add: tw) (simp add: g7_def)
  have "load_game E g = (case create_track E g7 of Inl x \<Rightarrow> Inl x
     | Inr g8 \<Rightarrow>
                (let (cs, n) = recreate_coins (sd_coins d) [] 0;
                     g9 = g8\<lparr>coin_entities := Some cs, total_coins := n\<rparr>;
                     (cars, g10) = recreate_ai_cars 0 (sd_ai_cars d) [] g9;
                     g11 = g10\<lparr>ai_cars := Some cars\<rparr>;
                     (tp, g12) = generate_car_texture (world_seed g11) g11;
                     g13 = g12\<lparr>player := Some (restore_player (sd_player d))\<rparr>
                 in Inr (g13\<lparr>score := gs_score (sd_game_state d),
                              level := gs_level (sd_game_state d),
                              coins := gs_coins (sd_game_state d),
                              difficulty := gs_difficulty (sd_game_state d)\<rparr>)))"
    using assms
    by (simp add: load_game_def g7_def s_def generate_ground_texture_def
        generate_wall_texture_def generate_coin_texture_def seed_random_def)
  then show ?thesis
    unfolding ct
    by (simp add: recreate_coins_eq recreate_ai_cars_eq generate_car_texture_def
          seed_random_def g0_def g7_def s_def)
qed


lemma spawn_ai_cars_from_ok:
  assumes "ai_speed_factor g = Some f" "ai_cars g = Some cars"
  shows "\<exists>new r. spawn_ai_cars_from E i n g = Inr (g\<lparr>ai_cars := Some (cars @ new), rng := r\<rparr>)
           \<and> length new = n"
  using assms
proof (induction n arbitrary: i g cars)
  case 0
  then show ?case by (intro exI[of _ "[]"] exI[of _ "rng g"]) simp
next
  case (Suc n)
  define x where "x = fst (uniform E (- 10) 10 g)"
  define ga where "ga = snd (uniform E (- 10) 10 g)"
  define z where "z = fst (uniform E (- 20) (- 40) ga)"
  define gb where "gb = snd (uniform E (- 20) (- 40) ga)"
  define gc where "gc = seed_random (world_seed gb + int i) gb"
  define c where "c = (Car (x, 0, z) False)\<lparr>max_speed := 20 * f\<rparr>"
  define g' where "g' = gc\<lparr>ai_cars := Some (cars @ [c])\<rparr>"
  have gc: "gc = g\<lparr>rng := rng gc\<rparr>"
    by (simp add: gc_def gb_def ga_def uniform_def seed_random_def)
  have f: "ai_speed_factor gc = Some f" "ai_cars gc = Some cars"
    by (subst gc, simp add: Suc.prems)+
  have step: "spawn_ai_cars_from E i (Suc n) g = spawn_ai_cars_from E (Suc i) n g'"
    using f
    by (simp add: case_prod_beta generate_car_texture_def x_def[symmetric] ga_def[symmetric]
        z_def[symmetric] gb_def[symmetric] gc_def[symmetric] c_def g'_def)
  have "ai_speed_factor g' = Some f" "ai_cars g' = Some (cars @ [c])"
    using f by (simp_all add: g'_def)
  from Suc.IH[OF this] obtain new r where
    n: "spawn_ai_cars_from E (Suc i) n g' = Inr (g'\<lparr>ai_cars := Some ((cars @ [c]) @ new), rng := r\<rparr>)"
      "length new = n"
    by blast
  have "g'\<lparr>ai_cars := Some ((cars @ [c]) @ new), rng := r\<rparr>
       = g\<lparr>ai_cars := Some (cars @ (c # new)), rng := r\<rparr>"
    by (subst g'_def, subst gc) simp
  then show ?case
    using n unfolding step by (intro exI[of _ "c # new"] exI[of _ r]) simp
qed


lemma start_game_new:
  assumes "ai_speed_factor g = Some f"
  shows "\<exists>cars r. length cars = 4 \<and> start_game E False seed g =
    Inr (g\<lparr>game_state := Playing, score := 0, world_seed := seed,
         textures := Some [(''ground'', Texture ''ground'' seed), (''wall'', Texture ''wall'' seed),
            (''coin'', Texture ''coin'' seed)],
         min_generated_z := - 50, max_generated_z := 50,
         walls := Some initial_walls,
         obstacles := Some (map new_entity (scatter E (- 50) 50 10 (seed, 0))),
         coin_entities := Some (map new_entity (scatter E (- 50) 50 20 (seed, 20))),
         total_coins := total_coins g + 20,
         ai_cars := Some cars,
         player := Some (Car (0, 0, 0) True),
         rng := (seed, 0)\<rparr>)"
proof -
  define g5 where "g5 = g\<lparr>game_state := Playing, score := 0, world_seed := seed,
      rng := (seed, 0),
      textures := Some [(''ground'', Texture ''ground'' seed), (''wall'', Texture ''wall'' seed),
        (''coin'', Texture ''coin'' seed)],
      coin_entities := Some []\<rparr>"
  define g0 where "g0 = g5\<lparr>walls := Some [], obstacles := Some [],
               min_generated_z := - 50, max_generated_z := 50\<rparr>"
  define g6 where "g6 = g0\<lparr>walls := Some initial_walls,
        obstacles := Some (map new_entity (scatter E (- 50) 50 10 (seed, 0))),
        coin_entities := Some (map new_entity (scatter E (- 50) 50 20 (seed, 20))),
        total_coins := total_coins g + 20,
        rng := (seed, 60)\<rparr>"
  have tw: "try_generate_walls (- 50) 50 g0 = g0\<lparr>walls := Some initial_walls\<rparr>"
    by (rule try_generate_walls_initial[where t = "Texture ''wall'' seed"])
       (simp_all add: g0_def g5_def lookup_texture_def)
  have "create_track E g5 =
     Inr ((try_generate_walls (- 50) 50 g0)
       \<lparr>obstacles := Some (map new_entity (scatter E (- 50) 50 10 (rng g5))),
        coin_entities := Some ([] @ map new_entity
           (scatter E (- 50) 50 20 (fst (rng g5), snd (rng g5) + 20))),
        total_coins := total_coins g5 + 20,
        rng := (fst (rng g5), snd (rng g5) + 60)\<rparr>)"
    unfolding g0_def
    by (rule create_track_eq[where tg = "Texture ''ground'' seed" and tw = "Texture ''wall'' seed"
          and tc = "Texture ''coin'' seed"])
       (simp_all add: g5_def lookup_texture_def)
  then have ct: "create_track E g5 = Inr g6"
    by (simp add: tw g6_def) (simp add: g5_def)
  have "ai_speed_factor (g6\<lparr>ai_cars := Some []\<rparr>) = Some f"
    "ai_cars (g6\<lparr>ai_cars := Some []\<rparr>) = Some []"
    using assms by (simp_all add: g6_def g0_def g5_def)
  from spawn_ai_cars_from_ok[OF this, of E 0 4] obtain cars r where
    sp0: "spawn_ai_cars E (g6\<lparr>ai_cars := Some []\<rparr>)
          = Inr (g6\<lparr>ai_cars := Some []\<rparr>\<lparr>ai_cars := Some ([] @ cars), rng := r\<rparr>)"
    and len: "length cars = 4"
    unfolding spawn_ai_cars_def by blast
  define g7 where "g7 = g6\<lparr>ai_cars := Some cars, rng := r\<rparr>"
  have sp: "spawn_ai_cars E (g6\<lparr>ai_cars := Some []\<rparr>) = Inr g7"
    unfolding sp0 g7_def by simp
  have e1: "start_game E False seed g =
     (case (case create_track E g5 of
                       Inl x \<Rightarrow> Inl x
                     | Inr g6 \<Rightarrow>
                        (case spawn_ai_cars E (g6\<lparr>ai_cars := Some []\<rparr>) of
                           Inl x \<Rightarrow> Inl x
                         | Inr g7 \<Rightarrow>
                            (case generate_car_texture (world_seed g7) g7 of (tp, g8) \<Rightarrow>
                               Inr (g8\<lparr>player := Some (Car (0, 0, 0) True)\<rparr>)))) of
           Inl x \<Rightarrow> Inl x
         | Inr g9 \<Rightarrow> (case player g9 of None \<Rightarrow> Inl (AttributeError, g9) | Some p \<Rightarrow> Inr g9))"
    by (simp add: start_game_def g5_def generate_ground_texture_def
        generate_wall_texture_def generate_coin_texture_def seed_random_def)
  have e2: "start_game E False seed g =
      Inr (g7\<lparr>rng := (world_seed g7, 0), player := Some (Car (0, 0, 0) True)\<rparr>)"
    unfolding e1 ct sum.case sp
    by (simp add: generate_car_texture_def seed_random_def)
  show ?thesis
    unfolding e2
    by (intro exI[of _ cars] exI[of _ r]) (simp add: len g7_def g6_def g0_def g5_def)
qed

lemma menu_speed: "ai_speed_factor menu_game = Some (9 / 10)"
  by (simp add: menu_game_def set_difficulty_def)


lemma new_world_eq:
  "new_world =
     menu_game\<lparr>game_state := Playing, score := 0, world_seed := 7,
         textures := Some [(''ground'', Texture ''ground'' 7), (''wall'', Texture ''wall'' 7),
            (''coin'', Texture ''coin'' 7)],
         min_generated_z := - 50, max_generated_z := 50,
         walls := Some initial_walls,
         obstacles := Some (map new_entity (scatter still_engine (- 50) 50 10 (7, 0))),
         coin_entities := Some (map new_entity (scatter still_engine (- 50) 50 20 (7, 20))),
         total_coins := total_coins menu_game + 20,
         ai_cars := ai_cars new_world,
         player := Some (Car (0, 0, 0) True),
         rng := (7, 0)\<rparr>"
  "\<exists>cars. ai_cars new_world = Some cars \<and> length cars = 4"
  using start_game_new[OF menu_speed, of still_engine 7]
  by (auto simp: new_world_def state_of_def)

lemma new_world_fields:
  "game_state new_world = Playing" "score new_world = 0" "world_seed new_world = 7"
  "min_generated_z new_world = - 50" "max_generated_z new_world = 50"
  "walls new_world = Some initial_walls"
  "obstacles new_world = Some (map new_entity (scatter still_engine (- 50) 50 10 (7, 0)))"
  "coin_entities new_world = Some (map new_entity (scatter still_engine (- 50) 50 20 (7, 20)))"
  "total_coins new_world = 20" "coins new_world = 0" "level new_world = 1"
  "player new_world = Some (Car (0, 0, 0) True)"
  "auto_save_timer new_world = Some 0" "savefile new_world = None"
  "lookup_texture new_world ''wall'' = Inr (Texture ''wall'' 7)"
  "lookup_texture new_world ''coin'' = Inr (Texture ''coin'' 7)"
  "difficulty new_world = ''medium''"
  by (subst new_world_eq(1),
      simp add: menu_game_def set_difficulty_def initial_game_def lookup_texture_def)+

lemma new_world_live: "live new_world"
  using new_world_eq(2) by (auto simp: live_def new_world_fields)

lemma place_obstacles_bounds:
  "bounds (state_of (place_obstacles E s e n g)) = bounds g"
proof (induction n arbitrary: g)
  case 0
  show ?case by (simp add: state_of_def)
next
  case (Suc n)
  let ?gb = "snd (uniform E s e (snd (uniform E (- 12) 12 g)))"
  have b: "bounds (?gb\<lparr>obstacles := os\<rparr>) = bounds g" "bounds ?gb = bounds g" for os
    by (simp_all add: bounds_def uniform_def)
  show ?case
  proof (cases "lookup_texture ?gb ''wall''")
    case (Inl x)
    then show ?thesis by (simp add: case_prod_beta state_of_def b)
  next
    case t: (Inr t)
    show ?thesis
    proof (cases "obstacles ?gb")
      case None
      then show ?thesis by (simp add: case_prod_beta t state_of_def b)
    next
      case (Some os)
      then show ?thesis by (simp add: case_prod_beta t Suc.IH b)
    qed
  qed
qed

lemma place_coins_bounds:
  "bounds (state_of (place_coins E s e n g)) = bounds g"
proof (induction n arbitrary: g)
  case 0
  show ?case by (simp add: state_of_def)
next
  case (Suc n)
  let ?gb = "snd (uniform E s e (snd (uniform E (- 12) 12 g)))"
  have b: "bounds (?gb\<lparr>coin_entities := cs, total_coins := k\<rparr>) = bounds g" "bounds ?gb = bounds g" for cs k
    by (simp_all add: bounds_def uniform_def)
  show ?case
  proof (cases "lookup_texture ?gb ''coin''")
    case (Inl x)
    then show ?thesis by (simp add: case_prod_beta state_of_def b)
  next
    case t: (Inr t)
    show ?thesis
    proof (cases "coin_entities ?gb")
      case None
      then show ?thesis by (simp add: case_prod_beta t state_of_def b)
    next
      case (Some os)
      then show ?thesis by (simp add: case_prod_beta t Suc.IH b)
    qed
  qed
qed

lemma try_generate_walls_bounds: "bounds (try_generate_walls s e g) = bounds g"
  by (simp add: bounds_def try_generate_walls_frame)

lemma generate_track_segment_bounds:
  "bounds (state_of (generate_track_segment E s e g)) = bounds g"
proof (cases "place_obstacles E s e (num_obstacles s e) (try_generate_walls s e g)")
  case (Inl x)
  then show ?thesis
    using place_obstacles_bounds[of E s e "num_obstacles s e" "try_generate_walls s e g"]
    by (simp add: generate_track_segment_def try_generate_walls_bounds)
next
  case (Inr g2)
  then show ?thesis
    using place_obstacles_bounds[of E s e "num_obstacles s e" "try_generate_walls s e g"]
      place_coins_bounds[of E s e "num_coins s e" g2]
    by (simp add: generate_track_segment_def try_generate_walls_bounds state_of_def)
qed

lemma extend_forward_grows: "grows g (state_of (extend_forward E pz g))"
  using generate_track_segment_bounds[of E "max_generated_z g" "max_generated_z g + 50"
      "g\<lparr>max_generated_z := max_generated_z g + 50\<rparr>"]
  by (simp add: extend_forward_def grows_def bounds_def state_of_def Let_def)

lemma extend_backward_grows: "grows g (state_of (extend_backward E pz g))"
  using generate_track_segment_bounds[of E "min_generated_z g - 50" "min_generated_z g"
      "g\<lparr>min_generated_z := min_generated_z g - 50\<rparr>"]
  by (simp add: extend_backward_def grows_def bounds_def state_of_def Let_def)

lemma recenter_bounds: "bounds (state_of (recenter g)) = bounds g"
  by (simp add: recenter_def state_of_def bounds_def Let_def split: option.splits)

lemma grows_refl: "grows g g"
  by (simp add: grows_def)

lemma grows_trans: "grows a b \<Longrightarrow> grows b c \<Longrightarrow> grows a c"
  by (auto simp: grows_def)

lemma grows_bounds: "bounds b = bounds a \<Longrightarrow> grows a b"
  by (simp add: grows_def bounds_def)

lemma generate_more_terrain_grows: "grows g (state_of (generate_more_terrain E g))"
proof (cases "player g")
  case None
  then show ?thesis by (simp add: generate_more_terrain_def state_of_def grows_refl)
next
  case (Some p)
  show ?thesis
  proof (cases "extend_forward E (vz (position p)) g")
    case (Inl x)
    then show ?thesis
      using extend_forward_grows[of g E "vz (position p)"] Some
      by (simp add: generate_more_terrain_def state_of_def)
  next
    case f: (Inr g1)
    then have 1: "grows g g1"
      using extend_forward_grows[of g E "vz (position p)"] by (simp add: state_of_def)
    show ?thesis
    proof (cases "extend_backward E (vz (position p)) g1")
      case (Inl x)
      then show ?thesis
        using extend_backward_grows[of g1 E "vz (position p)"] Some f 1
        by (auto simp: generate_more_terrain_def state_of_def intro: grows_trans)
    next
      case b: (Inr g2)
      then have 2: "grows g1 g2"
        using extend_backward_grows[of g1 E "vz (position p)"] by (simp add: state_of_def)
      have "grows g2 (state_of (recenter g2))"
        by (rule grows_bounds[OF recenter_bounds])
      then show ?thesis
        using Some f b grows_trans[OF 1 2]
        by (auto simp: generate_more_terrain_def intro: grows_trans)
    qed
  qed
qed

lemma save_game_bounds: "bounds (state_of (save_game g)) = bounds g"
  by (simp add: save_game_def state_of_def bounds_def print_def split: option.splits)

lemma auto_save_bounds: "bounds (state_of (auto_save E g)) = bounds g"
  using save_game_bounds[of "g\<lparr>auto_save_timer := Some (the (auto_save_timer g) + time_dt E)\<rparr>"]
  by (auto simp: auto_save_def state_of_def bounds_def print_def Let_def
      split: option.splits sum.splits)

lemma update_terrain_grows: "grows g (state_of (update_terrain E g))"
proof (cases "generate_more_terrain E g")
  case (Inl x)
  then show ?thesis
    using generate_more_terrain_grows[of g E]
    by (auto simp: update_terrain_def state_of_def grows_refl split: option.splits)
next
  case (Inr g1)
  then have "grows g g1"
    using generate_more_terrain_grows[of g E] by (simp add: state_of_def)
  moreover have "grows g1 (state_of (auto_save E g1))"
    by (rule grows_bounds[OF auto_save_bounds])
  ultimately show ?thesis
    using Inr by (auto simp: update_terrain_def state_of_def grows_refl
        split: option.splits intro: grows_trans)
qed

lemma level_up_view: "terrain_view (level_up g) = terrain_view g"
  by (simp add: level_up_def terrain_view_def bounds_def print_def Let_def comp_def
      split: option.splits)

lemma level_up_bounds: "bounds (level_up g) = bounds g"
  using level_up_view[of g] by (simp add: terrain_view_def)

lemma collect_coin_view:
  "terrain_view (snd (collect_coin c g)) = terrain_view g"
  "e_position (fst (collect_coin c g)) = e_position c"
proof -
  let ?g2 = "g\<lparr>coins := coins g + 1, score := score g + 100 * level g\<rparr>"
  have "terrain_view ?g2 = terrain_view g"
    by (simp add: terrain_view_def bounds_def)
  then show "terrain_view (snd (collect_coin c g)) = terrain_view g"
    using level_up_view[of ?g2] by (simp add: collect_coin_def Let_def)
  show "e_position (fst (collect_coin c g)) = e_position c"
    by (simp add: collect_coin_def Let_def destroy_def)
qed

lemma check_coins_view:
  "terrain_view (snd (check_coins E p cs g)) = terrain_view g"
  "map e_position (fst (check_coins E p cs g)) = map e_position cs"
proof (induction cs arbitrary: g)
  case Nil
  {
    case 1 show ?case by simp
  next
    case 2 show ?case by simp
  }
next
  case (Cons c cs)
  {
    case 1
    show ?case
      using Cons.IH(1)[of "snd (collect_coin c g)"] Cons.IH(1)[of g]
      by (simp add: case_prod_beta collect_coin_view)
  next
    case 2
    show ?case
      using Cons.IH(2)[of "snd (collect_coin c g)"] Cons.IH(2)[of g]
      by (simp add: case_prod_beta collect_coin_view)
  }
qed

lemma check_coin_collisions_view:
  "terrain_view (state_of (check_coin_collisions E g)) = terrain_view g"
proof (cases "coin_entities g")
  case None
  then show ?thesis by (simp add: check_coin_collisions_def state_of_def)
next
  case (Some cs)
  show ?thesis
  proof (cases "player g")
    case None
    then show ?thesis using Some by (simp add: check_coin_collisions_def state_of_def)
  next
    case p: (Some p)
    show ?thesis
      using check_coins_view[of E p cs g] Some p
      by (simp add: check_coin_collisions_def state_of_def case_prod_beta terrain_view_def
          bounds_def)
  qed
qed

lemma check_solid_collisions_view:
  "terrain_view (state_of (check_solid_collisions E g)) = terrain_view g"
  by (simp add: check_solid_collisions_def state_of_def case_prod_beta terrain_view_def
      bounds_def split: option.splits)

lemma check_ai_collisions_view:
  "terrain_view (state_of (check_ai_collisions E g)) = terrain_view g"
  by (simp add: check_ai_collisions_def state_of_def case_prod_beta terrain_view_def
      bounds_def split: option.splits)

lemma update_collisions_view:
  "terrain_view (state_of (update_collisions E g)) = terrain_view g"
proof (cases "player g")
  case None
  then show ?thesis by (simp add: update_collisions_def state_of_def)
next
  case p: (Some p)
  show ?thesis
  proof (cases "check_coin_collisions E g")
    case (Inl x)
    then show ?thesis
      using check_coin_collisions_view[of E g] p by (simp add: update_collisions_def state_of_def)
  next
    case c: (Inr g1)
    then have 1: "terrain_view g1 = terrain_view g"
      using check_coin_collisions_view[of E g] by (simp add: state_of_def)
    show ?thesis
    proof (cases "check_solid_collisions E g1")
      case (Inl x)
      then show ?thesis
        using check_solid_collisions_view[of E g1] p c 1
        by (simp add: update_collisions_def state_of_def)
    next
      case s: (Inr g2)
      then have 2: "terrain_view g2 = terrain_view g1"
        using check_solid_collisions_view[of E g1] by (simp add: state_of_def)
      show ?thesis
        using check_ai_collisions_view[of E g2] p c s 1 2
        by (simp add: update_collisions_def)
    qed
  qed
qed


lemma view_bounds: "terrain_view a = terrain_view b \<Longrightarrow> bounds a = bounds b"
  by (simp add: terrain_view_def)


lemma update_grows: "grows g (update E g)"
proof (cases "game_state g = Playing")
  case False
  then show ?thesis by (simp add: update_def grows_refl)
next
  case True
  have c: "grows g (state_of (update_collisions E g))"
    by (rule grows_bounds[OF view_bounds[OF update_collisions_view]])
  have pr: "grows a (print l b)" if "grows a b" for a b l
    using that by (simp add: grows_def print_def)
  show ?thesis
  proof (cases "update_collisions E g")
    case (Inl x)
    then show ?thesis
      using c True by (cases x) (simp add: update_def state_of_def pr)
  next
    case (Inr g1)
    then have 1: "grows g g1" using c by (simp add: state_of_def)
    have 2: "grows g (state_of (update_terrain E g1))"
      by (rule grows_trans[OF 1 update_terrain_grows])
    show ?thesis
    proof (cases "update_terrain E g1")
      case l: (Inl x)
      then show ?thesis
        using 2 True Inr by (cases x) (simp add: update_def state_of_def pr)
    next
      case r: (Inr g2)
      then show ?thesis
        using 2 True Inr by (simp add: update_def state_of_def)
    qed
  qed
qed

lemma walls_while_no_error:
  assumes "lookup_texture g ''wall'' = Inr t"
  shows "fst (walls_while g ws z e) = None"
  using assms
proof (induction g ws z e rule: walls_while.induct)
  case (1 g ws z end_z)
  then show ?case
    by (subst walls_while.simps) (auto split: sum.splits)
qed

lemma try_generate_walls_live:
  assumes "lookup_texture g ''wall'' = Inr t" "walls g = Some ws"
  shows "try_generate_walls s e g
     = g\<lparr>walls := Some (if s \<le> e then snd (walls_while g ws s e) else ws)\<rparr>"
  using assms walls_while_no_error[OF assms(1), of ws s e]
  by (cases "walls_while g ws s e") (simp add: try_generate_walls_def generate_walls_def)

lemma live_cases:
  assumes "live g"
  obtains p ws os cs cars tw tc where "player g = Some p" "walls g = Some ws"
    "obstacles g = Some os" "coin_entities g = Some cs" "ai_cars g = Some cars"
    "lookup_texture g ''wall'' = Inr tw" "lookup_texture g ''coin'' = Inr tc"
proof -
  from assms obtain p ws os cs cars where 1: "player g = Some p" "walls g = Some ws"
    "obstacles g = Some os" "coin_entities g = Some cs" "ai_cars g = Some cars"
    by (auto simp: live_def)
  from assms obtain tw where 2: "lookup_texture g ''wall'' = Inr tw"
    by (cases "lookup_texture g ''wall''") (auto simp: live_def)
  from assms obtain tc where 3: "lookup_texture g ''coin'' = Inr tc"
    by (cases "lookup_texture g ''coin''") (auto simp: live_def)
  show thesis using 1 2 3 by (rule that)
qed

lemma generate_track_segment_live:
  assumes "live g"
  shows "\<exists>g1. generate_track_segment E s e g = Inr g1 \<and> keeps_session g g1
           \<and> bounds g1 = bounds g
           \<and> count_obstacles g1 = count_obstacles g + num_obstacles s e
           \<and> count_coins g1 = count_coins g + num_coins s e"
proof -
  from assms obtain p ws os cs cars tw tc where f: "player g = Some p" "walls g = Some ws"
    "obstacles g = Some os" "coin_entities g = Some cs" "ai_cars g = Some cars"
    "lookup_texture g ''wall'' = Inr tw" "lookup_texture g ''coin'' = Inr tc"
    by (rule live_cases)
  show ?thesis
    unfolding generate_track_segment_eq[OF f(6,7,3,4)] try_generate_walls_live[OF f(6,2)]
    using f by (simp add: keeps_session_def live_def bounds_def lookup_texture_def
        count_obstacles_def count_coins_def scatter_length)
qed

lemma keeps_session_refl: "live g \<Longrightarrow> keeps_session g g"
  by (simp add: keeps_session_def)

lemma keeps_session_trans:
  "keeps_session a b \<Longrightarrow> keeps_session b c \<Longrightarrow> keeps_session a c"
  by (simp add: keeps_session_def)

lemma keeps_session_live: "keeps_session a b \<Longrightarrow> live b"
  by (simp add: keeps_session_def)

lemma counts_50: "num_obstacles z (z + 50) = 5" "num_coins z (z + 50) = 10"
  "num_obstacles (z - 50) z = 5" "num_coins (z - 50) z = 10"
  by (simp_all add: num_obstacles_def num_coins_def py_int_def)

lemma extend_forward_live:
  assumes "live g"
  shows "\<exists>g1. extend_forward E pz g = Inr g1 \<and> keeps_session g g1
     \<and> min_generated_z g1 = min_generated_z g
     \<and> max_generated_z g1 = (if pz > max_generated_z g - 50 then max_generated_z g + 50
                               else max_generated_z g)
     \<and> count_obstacles g1 = count_obstacles g + (if pz > max_generated_z g - 50 then 5 else 0)
     \<and> count_coins g1 = count_coins g + (if pz > max_generated_z g - 50 then 10 else 0)"
proof (cases "pz > max_generated_z g - 50")
  case False
  then show ?thesis using assms by (simp add: extend_forward_def keeps_session_refl)
next
  case True
  let ?g = "g\<lparr>max_generated_z := max_generated_z g + 50\<rparr>"
  have "live ?g" using assms by (simp add: live_def lookup_texture_def)
  from generate_track_segment_live[OF this, of E "max_generated_z g" "max_generated_z g + 50"]
  show ?thesis
    using True by (auto simp: extend_forward_def keeps_session_def bounds_def counts_50
        count_obstacles_def count_coins_def)
qed

lemma extend_backward_live:
  assumes "live g"
  shows "\<exists>g1. extend_backward E pz g = Inr g1 \<and> keeps_session g g1
     \<and> max_generated_z g1 = max_generated_z g
     \<and> min_generated_z g1 = (if pz < min_generated_z g + 50 then min_generated_z g - 50
                               else min_generated_z g)
     \<and> count_obstacles g1 = count_obstacles g + (if pz < min_generated_z g + 50 then 5 else 0)
     \<and> count_coins g1 = count_coins g + (if pz < min_generated_z g + 50 then 10 else 0)"
proof (cases "pz < min_generated_z g + 50")
  case False
  then show ?thesis using assms by (simp add: extend_backward_def keeps_session_refl)
next
  case True
  let ?g = "g\<lparr>min_generated_z := min_generated_z g - 50\<rparr>"
  have "live ?g" using assms by (simp add: live_def lookup_texture_def)
  from generate_track_segment_live[OF this, of E "min_generated_z g - 50" "min_generated_z g"]
  show ?thesis
    using True by (auto simp: extend_backward_def keeps_session_def bounds_def counts_50
        count_obstacles_def count_coins_def)
qed

lemma extensions_live:
  assumes "live g" "player g = Some p"
  shows "\<exists>gb. generate_more_terrain E g = recenter gb \<and> keeps_session g gb
     \<and> max_generated_z gb = (if vz (position p) > max_generated_z g - 50
                               then max_generated_z g + 50 else max_generated_z g)
     \<and> min_generated_z gb = (if vz (position p) < min_generated_z g + 50
                               then min_generated_z g - 50 else min_generated_z g)
     \<and> count_obstacles gb = count_obstacles g
          + (if vz (position p) > max_generated_z g - 50 then 5 else 0)
          + (if vz (position p) < min_generated_z g + 50 then 5 else 0)
     \<and> count_coins gb = count_coins g
          + (if vz (position p) > max_generated_z g - 50 then 10 else 0)
          + (if vz (position p) < min_generated_z g + 50 then 10 else 0)"
proof -
  from extend_forward_live[OF assms(1), of E "vz (position p)"] obtain g1 where
    1: "extend_forward E (vz (position p)) g = Inr g1" "keeps_session g g1"
      "min_generated_z g1 = min_generated_z g"
      "max_generated_z g1 = (if vz (position p) > max_generated_z g - 50
          then max_generated_z g + 50 else max_generated_z g)"
      "count_obstacles g1 = count_obstacles g
          + (if vz (position p) > max_generated_z g - 50 then 5 else 0)"
      "count_coins g1 = count_coins g
          + (if vz (position p) > max_generated_z g - 50 then 10 else 0)"
    by blast
  from extend_backward_live[OF keeps_session_live[OF 1(2)], of E "vz (position p)"] obtain g2 where
    2: "extend_backward E (vz (position p)) g1 = Inr g2" "keeps_session g1 g2"
      "max_generated_z g2 = max_generated_z g1"
      "min_generated_z g2 = (if vz (position p) < min_generated_z g1 + 50
          then min_generated_z g1 - 50 else min_generated_z g1)"
      "count_obstacles g2 = count_obstacles g1
          + (if vz (position p) < min_generated_z g1 + 50 then 5 else 0)"
      "count_coins g2 = count_coins g1
          + (if vz (position p) < min_generated_z g1 + 50 then 10 else 0)"
    by blast
  show ?thesis
    using assms(2) 1 2 keeps_session_trans[OF 1(2) 2(2)]
    by (intro exI[of _ g2]) (simp add: generate_more_terrain_def)
qed

lemma check_coins_still: "check_coins still_engine p cs g = (cs, g)"
  by (induction cs arbitrary: g) (simp_all add: still_engine_def)

lemma check_solids_still: "check_solids still_engine es p s = (p, s)"
  by (induction es arbitrary: p s) (simp_all add: still_engine_def)

lemma check_ai_cars_still: "check_ai_cars still_engine cs p s = (p, s)"
  by (induction cs arbitrary: p s) (simp_all add: still_engine_def)

lemma update_same:
  "coin_entities g = v \<Longrightarrow> g\<lparr>coin_entities := v\<rparr> = g"
  "player g = q \<and> score g = s \<Longrightarrow> g\<lparr>player := q, score := s\<rparr> = g"
  by (cases g; auto)+

lemma update_collisions_still:
  assumes "live g"
  shows "update_collisions still_engine g = Inr g"
proof -
  from assms obtain p ws os cs cars tw tc where f: "player g = Some p" "walls g = Some ws"
    "obstacles g = Some os" "coin_entities g = Some cs" "ai_cars g = Some cars"
    "lookup_texture g ''wall'' = Inr tw" "lookup_texture g ''coin'' = Inr tc"
    by (rule live_cases)
  have 1: "check_coin_collisions still_engine g = Inr g"
    using f(1,4) by (simp add: check_coin_collisions_def check_coins_still update_same)
  have 2: "check_solid_collisions still_engine g = Inr g"
    using f(1,2,3) by (simp add: check_solid_collisions_def check_solids_still update_same)
  have 3: "check_ai_collisions still_engine g = Inr g"
    using f(1,5) by (simp add: check_ai_collisions_def check_ai_cars_still update_same)
  show ?thesis using f(1) by (simp add: update_collisions_def 1 2 3)
qed

lemma recenter_live:
  assumes "live g" "player g = Some p"
  shows "\<exists>g1. recenter g = Inr g1 \<and> live g1 \<and> bounds g1 = bounds g
     \<and> auto_save_timer g1 = auto_save_timer g \<and> savefile g1 = savefile g
     \<and> game_state g1 = game_state g
     \<and> count_obstacles g1 = count_obstacles g \<and> count_coins g1 = count_coins g
     \<and> player g1 = Some (if \<bar>vz (position p)\<bar> > 1000
                           then p\<lparr>position := set_z 0 (position p)\<rparr> else p)"
proof -
  from assms(1) obtain q ws os cs cars tw tc where f: "player g = Some q" "walls g = Some ws"
    "obstacles g = Some os" "coin_entities g = Some cs" "ai_cars g = Some cars"
    "lookup_texture g ''wall'' = Inr tw" "lookup_texture g ''coin'' = Inr tc"
    by (rule live_cases)
  show ?thesis
    using f assms
    by (simp add: recenter_def Let_def live_def bounds_def lookup_texture_def
        count_obstacles_def count_coins_def)
qed

lemma auto_save_live:
  assumes "live g"
  shows "\<exists>g1. auto_save E g = Inr g1 \<and> live g1 \<and> bounds g1 = bounds g
     \<and> player g1 = player g \<and> game_state g1 = game_state g
     \<and> count_obstacles g1 = count_obstacles g \<and> count_coins g1 = count_coins g"
proof -
  from assms(1) obtain q ws os cs cars tw tc where f: "player g = Some q" "walls g = Some ws"
    "obstacles g = Some os" "coin_entities g = Some cs" "ai_cars g = Some cars"
    "lookup_texture g ''wall'' = Inr tw" "lookup_texture g ''coin'' = Inr tc"
    by (rule live_cases)
  show ?thesis
    using f
    by (auto simp: auto_save_def Let_def live_def bounds_def lookup_texture_def save_game_def
        print_def count_obstacles_def count_coins_def split: option.splits)
qed

lemma auto_save_tick:
  assumes "auto_save_timer g = Some t" "t + time_dt E < 60"
  shows "auto_save E g = Inr (g\<lparr>auto_save_timer := Some (t + time_dt E)\<rparr>)"
  using assms by (simp add: auto_save_def Let_def)

lemma update_terrain_live:
  assumes "live g" "player g = Some p"
  shows "\<exists>g'. update_terrain E g = Inr g' \<and> live g' \<and> game_state g' = game_state g
     \<and> max_generated_z g' =
         (if \<bar>vz (position p)\<bar> > 150 \<and> vz (position p) > max_generated_z g - 50
          then max_generated_z g + 50 else max_generated_z g)
     \<and> min_generated_z g' =
         (if \<bar>vz (position p)\<bar> > 150 \<and> vz (position p) < min_generated_z g + 50
          then min_generated_z g - 50 else min_generated_z g)
     \<and> count_obstacles g' = count_obstacles g
         + (if \<bar>vz (position p)\<bar> > 150 \<and> vz (position p) > max_generated_z g - 50 then 5 else 0)
         + (if \<bar>vz (position p)\<bar> > 150 \<and> vz (position p) < min_generated_z g + 50 then 5 else 0)
     \<and> count_coins g' = count_coins g
         + (if \<bar>vz (position p)\<bar> > 150 \<and> vz (position p) > max_generated_z g - 50 then 10 else 0)
         + (if \<bar>vz (position p)\<bar> > 150 \<and> vz (position p) < min_generated_z g + 50 then 10 else 0)
     \<and> player g' = Some (if \<bar>vz (position p)\<bar> > 1000
                           then p\<lparr>position := set_z 0 (position p)\<rparr> else p)"
proof (cases "\<bar>vz (position p)\<bar> > 150")
  case False
  then show ?thesis using assms by (simp add: update_terrain_def)
next
  case True
  from extensions_live[OF assms, of E] obtain gb where
    b: "generate_more_terrain E g = recenter gb" "keeps_session g gb"
     "max_generated_z gb = (if vz (position p) > max_generated_z g - 50
                               then max_generated_z g + 50 else max_generated_z g)"
     "min_generated_z gb = (if vz (position p) < min_generated_z g + 50
                               then min_generated_z g - 50 else min_generated_z g)"
     "count_obstacles gb = count_obstacles g
          + (if vz (position p) > max_generated_z g - 50 then 5 else 0)
          + (if vz (position p) < min_generated_z g + 50 then 5 else 0)"
     "count_coins gb = count_coins g
          + (if vz (position p) > max_generated_z g - 50 then 10 else 0)
          + (if vz (position p) < min_generated_z g + 50 then 10 else 0)"
    by blast
  have pb: "player gb = Some p" "live gb" "game_state gb = game_state g"
    using b(2) assms(2) by (simp_all add: keeps_session_def)
  from recenter_live[OF pb(2,1)] obtain g1 where
    r: "recenter gb = Inr g1" "live g1" "bounds g1 = bounds gb"
      "game_state g1 = game_state gb"
      "count_obstacles g1 = count_obstacles gb" "count_coins g1 = count_coins gb"
      "player g1 = Some (if \<bar>vz (position p)\<bar> > 1000
                           then p\<lparr>position := set_z 0 (position p)\<rparr> else p)"
    by blast
  from auto_save_live[OF r(2), of E] obtain g2 where
    a: "auto_save E g1 = Inr g2" "live g2" "bounds g2 = bounds g1"
     "player g2 = player g1" "game_state g2 = game_state g1"
     "count_obstacles g2 = count_obstacles g1" "count_coins g2 = count_coins g1"
    by blast
  have "update_terrain E g = Inr g2"
    using True assms(2) by (simp add: update_terrain_def b(1) r(1) a(1))
  then show ?thesis
    using True a r b pb by (simp add: bounds_def)
qed

lemma driven_fields:
  "live (driven_to z)" "game_state (driven_to z) = Playing"
  "player (driven_to z) = Some ((Car (0, 0, 0) True)\<lparr>position := (0, 0, z)\<rparr>)"
  "min_generated_z (driven_to z) = - 50" "max_generated_z (driven_to z) = 50"
  "auto_save_timer (driven_to z) = Some 0" "savefile (driven_to z) = None"
  "world_seed (driven_to z) = 7" "total_coins (driven_to z) = 20"
  "walls (driven_to z) = Some initial_walls"
  using new_world_live
  by (simp_all add: driven_to_def new_world_fields live_def lookup_texture_def)

lemma update_still:
  assumes "live g" "game_state g = Playing" "update_terrain still_engine g = Inr g'"
  shows "update still_engine g = g'"
  using assms by (simp add: update_def update_collisions_still)





text \<open>
  Claim C3, as amended. After any tick \<open>max_generated_z\<close> has not decreased and
  \<open>min_generated_z\<close> has not increased, at a recentering tick as well: the recentering
  step does not touch the bounds, which move only by the extensions of 50.
\<close>

theorem update_bounds_monotone:
  "min_generated_z (update E g) \<le> min_generated_z g
   \<and> max_generated_z g \<le> max_generated_z (update E g)
   \<and> bounds (state_of (recenter g)) = bounds g"
  using update_grows[of g E] recenter_bounds[of g] by (simp add: grows_def)

text \<open>Claim C3 as stated fails at a recentering tick: with the player at z = 1001 the tick
  recenters the player and moves \<open>max_generated_z\<close> by 50 and \<open>min_generated_z\<close> by 0,
  not both by one offset.\<close>

theorem recentering_bounds_counterexample:
  "map_option (\<lambda>p. \<bar>vz (position p)\<bar> > 1000) (player (driven_to 1001)) = Some True
   \<and> map_option (\<lambda>p. vz (position p)) (player (update still_engine (driven_to 1001))) = Some 0
   \<and> max_generated_z (update still_engine (driven_to 1001)) - max_generated_z (driven_to 1001) = 50
   \<and> min_generated_z (update still_engine (driven_to 1001)) - min_generated_z (driven_to 1001) = 0"
proof -
  from update_terrain_live[OF driven_fields(1)[of 1001] driven_fields(3)[of 1001], where E = still_engine] obtain g' where
    g': "update_terrain still_engine (driven_to 1001) = Inr g'"
      "max_generated_z g' = 100" "min_generated_z g' = - 50"
      "player g' = Some ((Car (0, 0, 0) True)\<lparr>position := (0, 0, 0)\<rparr>)"
    by (auto simp: driven_fields vz_def set_z_def vx_def vy_def)
  have "update still_engine (driven_to 1001) = g'"
    by (rule update_still[OF driven_fields(1,2) g'(1)])
  then show ?thesis by (simp add: driven_fields g' vz_def)
qed



text \<open>
  Claim C9, evaluated where it fails. With a save file that \<open>json.load\<close> rejects,
  \<open>load_game\<close> raises the decoding error (it has no handler), and so does
  \<open>start_game(True)\<close>, which by then has switched to the playing state and reset the
  score. Without a save file \<open>load_game\<close> prints the notice and changes nothing else.
\<close>

theorem load_game_unparseable_raises:
  "load_game E (g\<lparr>savefile := Some Unparseable\<rparr>)
     = Inl (JSONDecodeError, g\<lparr>savefile := Some Unparseable\<rparr>)
   \<and> start_game E True seed (g\<lparr>savefile := Some Unparseable\<rparr>)
     = Inl (JSONDecodeError, g\<lparr>savefile := Some Unparseable, game_state := Playing, score := 0\<rparr>)
   \<and> load_game E (g\<lparr>savefile := None\<rparr>)
     = Inr (print (Line ''Kein Speicherstand gefunden!'') (g\<lparr>savefile := None\<rparr>))"
  by (simp add: load_game_def start_game_def)

lemma world_with_save_fields:
  "savefile world_with_save = Some (Saved sample_save)"
  "coin_entities world_with_save
     = Some (map new_entity (scatter still_engine (- 50) 50 20 (7, 20)))"
  "total_coins world_with_save = 20"
  by (simp_all add: world_with_save_def new_world_fields)

text \<open>What \<open>load_game\<close> restores of the progression, in a game whose coin collection
  exists: score, level, the coin counter and the difficulty come verbatim from the
  record's game state; \<open>total_coins\<close> is recounted from the coin positions of the record.\<close>

lemma load_game_progression:
  assumes "savefile g = Some (Saved d)" "coin_entities g = Some cs"
  shows "\<exists>g'. load_game E g = Inr g'
    \<and> score g' = gs_score (sd_game_state d)
    \<and> level g' = gs_level (sd_game_state d)
    \<and> coins g' = gs_coins (sd_game_state d)
    \<and> difficulty g' = gs_difficulty (sd_game_state d)
    \<and> total_coins g' = int (length (sd_coins d))"
  using load_game_saved[OF assms, of E] by blast

text \<open>
  Claim C5, evaluated where it fails. The running new world loads a record that was saved
  with 18 of 20 coins collected: score 1800, level 1, coin counter 18, \<open>total_coins\<close> 20
  and two coin positions. The load succeeds and restores score, level and coin counter,
  but \<open>total_coins\<close> is 2, not the 20 of the record: \<open>save_game\<close> writes the field and
  \<open>load_game\<close> never reads it.
\<close>

theorem load_recounts_total_coins:
  "gs_score (sd_game_state sample_save) = 1800
   \<and> gs_level (sd_game_state sample_save) = 1
   \<and> gs_coins (sd_game_state sample_save) = 18
   \<and> gs_total_coins (sd_game_state sample_save) = 20
   \<and> raised (load_game still_engine world_with_save) = None
   \<and> score (state_of (load_game still_engine world_with_save)) = 1800
   \<and> level (state_of (load_game still_engine world_with_save)) = 1
   \<and> coins (state_of (load_game still_engine world_with_save)) = 18
   \<and> total_coins (state_of (load_game still_engine world_with_save)) = 2"
  using load_game_saved[OF world_with_save_fields(1,2), of still_engine]
  by (auto simp: raised_def state_of_def sample_save_def)























text \<open>The generator makes a single scan over all walls for each z. On a wall list in
  pairs, which is all it ever builds, that scan finds a wall exactly when a scan of the
  left side alone does, and exactly when a scan of the right side alone does.\<close>

lemma single_scan_is_scan_per_side:
  assumes "paired ws"
  shows "list_ex (wall_near z) ws = list_ex (wall_near z) (left_walls ws)"
    and "list_ex (wall_near z) ws = list_ex (wall_near z) (right_walls ws)"
proof -
  have l: "\<exists>v \<in> set ws. vx (e_position v) = 15 \<and> wall_near z v"
    if "w \<in> set ws" "wall_near z w" for w
  proof (cases "vx (e_position w) = 15")
    case True
    then show ?thesis using that by blast
  next
    case False
    with assms that(1) obtain v where "v \<in> set ws" "vx (e_position v) = 15"
      "vz (e_position v) = vz (e_position w)"
      by (fastforce simp: paired_def)
    then show ?thesis using that(2) by (auto simp: wall_near_def)
  qed
  have r: "\<exists>v \<in> set ws. vx (e_position v) = - 15 \<and> wall_near z v"
    if "w \<in> set ws" "wall_near z w" for w
  proof (cases "vx (e_position w) = - 15")
    case True
    then show ?thesis using that by blast
  next
    case False
    with assms that(1) obtain v where "v \<in> set ws" "vx (e_position v) = - 15"
      "vz (e_position v) = vz (e_position w)"
      by (fastforce simp: paired_def)
    then show ?thesis using that(2) by (auto simp: wall_near_def)
  qed
  show "list_ex (wall_near z) ws = list_ex (wall_near z) (left_walls ws)"
    using l by (auto simp: list_ex_iff left_walls_def)
  show "list_ex (wall_near z) ws = list_ex (wall_near z) (right_walls ws)"
    using r by (auto simp: list_ex_iff right_walls_def)
qed

lemma paired_append_pair:
  assumes "paired ws"
  shows "paired (ws @ [new_entity (15, y, z), new_entity (- 15, y, z)])"
  using assms
  by (auto simp: paired_def new_entity_def vx_def vz_def)

lemma walls_while_paired:
  "paired ws \<Longrightarrow> paired (snd (walls_while g ws z e))"
proof (induction g ws z e rule: walls_while.induct)
  case (1 g ws z end_z)
  show ?case
  proof (cases "z \<le> end_z")
    case False
    then show ?thesis using "1.prems" by (subst walls_while.simps) simp
  next
    case le: True
    show ?thesis
    proof (cases "list_ex (wall_near z) ws")
      case True
      then show ?thesis
        using le "1.IH"(2) "1.prems" by (subst walls_while.simps) simp
    next
      case far: False
      show ?thesis
      proof (cases "lookup_texture g ''wall''")
        case (Inl x)
        then show ?thesis
          using le far "1.prems" by (subst walls_while.simps) simp
      next
        case (Inr t)
        from "1.IH"(1)[OF le far Inr paired_append_pair[OF "1.prems"]] show ?thesis
          using le far Inr by (subst walls_while.simps) simp
      qed
    qed
  qed
qed

text \<open>Recentering shifts every wall by the same offset and keeps the wall list free of
  duplicates.\<close>

lemma shift_apart: "apart (shift_entity d a) (shift_entity d b) = apart a b"
  by (simp add: apart_def same_side_def shift_entity_def set_z_def vx_def vz_def)

lemma no_dup_walls_shift: "no_dup_walls (map (shift_entity d) ws) = no_dup_walls ws"
  by (induction ws) (simp_all add: list_all_iff shift_apart)

lemma recenter_walls_ok: "walls_ok g \<Longrightarrow> walls_ok (state_of (recenter g))"
  by (auto simp: recenter_def walls_ok_def state_of_def Let_def no_dup_walls_shift
      split: option.splits)

text \<open>When no wall and no obstacle touches the player in a tick, the value that the gate
  tests is the player's z at the start of the tick.\<close>

lemma check_solids_no_hit:
  "\<forall>e \<in> set es. \<not> car_intersects_entity E p e \<Longrightarrow> check_solids E es p s = (p, s)"
  by (induction es) simp_all

lemma check_ai_cars_position:
  "position (fst (check_ai_cars E cs p s)) = position p"
  by (induction cs arbitrary: p s) simp_all

lemma level_up_player: "player (level_up g) = player g"
  by (simp add: level_up_def print_def Let_def split: option.splits)

lemma collect_coin_player: "player (snd (collect_coin c g)) = player g"
  by (simp add: collect_coin_def Let_def level_up_player)

lemma check_coins_player: "player (snd (check_coins E p cs g)) = player g"
  by (induction cs arbitrary: g) (simp_all add: case_prod_beta collect_coin_player)

lemma gate_z_no_bounce:
  assumes "live g" "player g = Some p" "walls g = Some ws" "obstacles g = Some os"
    "\<forall>e \<in> set (ws @ os). \<not> car_intersects_entity E p e"
  shows "gate_z E g = Some (vz (position p))"
proof -
  from assms(1) obtain cs cars where f: "coin_entities g = Some cs" "ai_cars g = Some cars"
    by (auto simp: live_def)
  define g1 where "g1 = (snd (check_coins E p cs g))\<lparr>coin_entities := Some (fst (check_coins E p cs g))\<rparr>"
  have c: "check_coin_collisions E g = Inr g1"
    using assms(2) f(1) by (simp add: check_coin_collisions_def case_prod_beta g1_def)
  have v: "terrain_view g1 = terrain_view g"
    using check_coin_collisions_view[of E g] by (simp add: c state_of_def)
  have p1: "player g1 = Some p"
    using assms(2) by (simp add: g1_def check_coins_player)
  have w1: "walls g1 = Some ws" "obstacles g1 = Some os"
    using v assms(3,4) by (simp_all add: terrain_view_def)
  obtain cars1 where a1: "ai_cars g1 = Some cars1"
    using v f(2) by (cases "ai_cars g1") (simp_all add: terrain_view_def)
  define g2 where "g2 = g1\<lparr>player := Some p, score := score g1\<rparr>"
  have s: "check_solid_collisions E g1 = Inr g2"
    using p1 w1 check_solids_no_hit[OF assms(5), of "score g1"]
    by (simp add: check_solid_collisions_def g2_def)
  have "check_ai_collisions E g2 =
      Inr (g2\<lparr>player := Some (fst (check_ai_cars E cars1 p (score g2))),
              score := snd (check_ai_cars E cars1 p (score g2))\<rparr>)"
    using a1 by (simp add: check_ai_collisions_def g2_def case_prod_beta)
  then show ?thesis
    using assms(2) by (simp add: gate_z_def update_collisions_def c s check_ai_cars_position)
qed




end
